theory Spec2Isabelle
  imports Complex_Main "HOL-Library.FSet"
begin

section \<open>Python values, exceptions and built-ins\<close>

text \<open>
  The program works on untyped Python data: JSON values read from the catalog file,
  metadata dictionaries stored in the vector index, result dictionaries. A dictionary
  keeps its insertion order, so it is an association list; a key is looked up with
  \<open>map_of\<close> and set with \<open>dict_set\<close> (in place when present, appended otherwise).
  Strings are \<open>string\<close>; one \<open>char\<close> stands for one character of a Python string.
  Floats are idealised as reals.
\<close>

datatype pyval =
    PNone
  | PBool bool
  | PInt int
  | PFloat real
  | PStr string
  | PList "pyval list"
  | PDict "(string \<times> pyval) list"

type_synonym pydict = "(string \<times> pyval) list"

datatype py_error =
    KeyError string
  | IndexError
  | TypeError
  | AttributeError
  | ValueError
  | OverflowError
  | OtherError string

text \<open>\<open>try: body except Exception: handler\<close>: an exception of the body runs the handler.\<close>

definition try_except :: "py_error + 'a \<Rightarrow> (py_error \<Rightarrow> py_error + 'a) \<Rightarrow> py_error + 'a" where
  "try_except body handler = (case body of Inl e \<Rightarrow> handler e | Inr v \<Rightarrow> Inr v)"

text \<open>Sequencing of statements that may raise.\<close>

definition and_then :: "py_error + 'a \<Rightarrow> ('a \<Rightarrow> py_error + 'b) \<Rightarrow> py_error + 'b" where
  "and_then m f = (case m of Inl e \<Rightarrow> Inl e | Inr v \<Rightarrow> f v)"

text \<open>\<open>d[k]\<close>, \<open>d.get(k, default)\<close>, \<open>k in d\<close>, \<open>d[k] = v\<close> and \<open>xs[i]\<close>.\<close>

definition dict_item :: "pydict \<Rightarrow> string \<Rightarrow> py_error + pyval" where
  "dict_item d k = (case map_of d k of None \<Rightarrow> Inl (KeyError k) | Some v \<Rightarrow> Inr v)"

definition dict_get :: "pydict \<Rightarrow> string \<Rightarrow> pyval \<Rightarrow> pyval" where
  "dict_get d k dflt = (case map_of d k of None \<Rightarrow> dflt | Some v \<Rightarrow> v)"

definition dict_has :: "pydict \<Rightarrow> string \<Rightarrow> bool" where
  "dict_has d k = (map_of d k \<noteq> None)"

fun dict_set :: "pydict \<Rightarrow> string \<Rightarrow> pyval \<Rightarrow> pydict" where
  "dict_set [] k v = [(k, v)]"
| "dict_set ((k', v') # d) k v = (if k' = k then (k, v) # d else (k', v') # dict_set d k v)"

definition list_item :: "'a list \<Rightarrow> nat \<Rightarrow> py_error + 'a" where
  "list_item xs i = (if i < length xs then Inr (xs ! i) else Inl IndexError)"

text \<open>Truthiness: \<open>if v:\<close>.\<close>

fun truthy :: "pyval \<Rightarrow> bool" where
  "truthy PNone = False"
| "truthy (PBool b) = b"
| "truthy (PInt n) = (n \<noteq> 0)"
| "truthy (PFloat x) = (x \<noteq> 0)"
| "truthy (PStr s) = (s \<noteq> [])"
| "truthy (PList xs) = (xs \<noteq> [])"
| "truthy (PDict d) = (d \<noteq> [])"

text \<open>Decimal rendering of integers, as \<open>str\<close> gives it.\<close>

definition digit_char :: "nat \<Rightarrow> char" where
  "digit_char n = ''0123456789'' ! (n mod 10)"

fun show_nat :: "nat \<Rightarrow> string" where
  "show_nat n = (if n < 10 then [digit_char n] else show_nat (n div 10) @ [digit_char (n mod 10)])"

declare show_nat.simps [simp del]

definition show_int :: "int \<Rightarrow> string" where
  "show_int i = (if i < 0 then CHR ''-'' # show_nat (nat (- i)) else show_nat (nat i))"

text \<open>
  What Python's formatting does and this development does not compute: \<open>str\<close> of a
  float, a list or a dictionary (\<open>str_other\<close>), \<open>format(x * 100, '.1f')\<close> of a
  float \<open>x\<close> (\<open>percent_1f\<close>), and \<open>format(n, '.1f')\<close> of an integer \<open>n\<close>
  (\<open>int_1f\<close>), which converts \<open>n\<close> to a float first and raises
  \<open>OverflowError\<close> when \<open>n\<close> is too large for one. They are parameters of every
  function that formats.
\<close>

record py_builtins =
  str_other :: "pyval \<Rightarrow> string"
  percent_1f :: "real \<Rightarrow> string"
  int_1f :: "int \<Rightarrow> py_error + string"

text \<open>\<open>str(v)\<close>, which is also what an f-string field \<open>{v}\<close> renders.\<close>

fun py_str :: "py_builtins \<Rightarrow> pyval \<Rightarrow> string" where
  "py_str B PNone = ''None''"
| "py_str B (PBool b) = (if b then ''True'' else ''False'')"
| "py_str B (PInt n) = show_int n"
| "py_str B (PStr s) = s"
| "py_str B v = str_other B v"

text \<open>\<open>sep.join(parts)\<close> on strings.\<close>

fun join :: "string \<Rightarrow> string list \<Rightarrow> string" where
  "join sep [] = []"
| "join sep [s] = s"
| "join sep (s # t # ss) = s @ sep @ join sep (t # ss)"

text \<open>
  Iterating a value: a list gives its elements, a dictionary its keys, a string its
  characters; anything else is not iterable.
\<close>

fun py_iter :: "pyval \<Rightarrow> py_error + pyval list" where
  "py_iter (PList xs) = Inr xs"
| "py_iter (PDict d) = Inr (map (\<lambda>kv. PStr (fst kv)) d)"
| "py_iter (PStr s) = Inr (map (\<lambda>c. PStr [c]) s)"
| "py_iter v = Inl TypeError"

text \<open>\<open>sep.join(v)\<close> on a value: every element must be a string.\<close>

fun as_strings :: "pyval list \<Rightarrow> py_error + string list" where
  "as_strings [] = Inr []"
| "as_strings (PStr s # vs) = and_then (as_strings vs) (\<lambda>ss. Inr (s # ss))"
| "as_strings (v # vs) = Inl TypeError"

definition py_join :: "string \<Rightarrow> pyval \<Rightarrow> py_error + string" where
  "py_join sep v = and_then (py_iter v) (\<lambda>xs. and_then (as_strings xs) (\<lambda>ss. Inr (join sep ss)))"

section \<open>shared_functions.py: the retrieval engine\<close>

subsection \<open>The vector index as a collaborator\<close>

text \<open>
  \<open>collection.query(query_texts=..., n_results=..., where=..., include=...)\<close> either
  raises or returns a result whose \<open>ids\<close>, \<open>metadatas\<close> and \<open>distances\<close> hold one
  list per query text. A result may be falsy (\<open>None\<close> here); a hit's metadata may be
  \<open>None\<close>. The unfiltered search passes no \<open>where\<close>, which is \<open>PNone\<close>.
\<close>

record query_result =
  ids :: "string list list"
  metadatas :: "pydict option list list"
  distances :: "real list list"

record query_request =
  query_texts :: "string list"
  n_results :: int
  where_kw :: pyval
  include_kw :: "string list"

type_synonym collection = "query_request \<Rightarrow> py_error + query_result option"

subsection \<open>Formatting the hits\<close>

text \<open>The body of the loop \<open>for i in range(len(results['ids'][0]))\<close>, shared by both searches.\<close>

definition format_hit :: "query_result \<Rightarrow> nat \<Rightarrow> py_error + pydict" where
  "format_hit results i =
     and_then (list_item (distances results) 0) (\<lambda>ds.
     and_then (list_item ds i) (\<lambda>d.
     let similarity_score = 1 - d in
     and_then (list_item (metadatas results) 0) (\<lambda>ms.
     and_then (list_item ms i) (\<lambda>m.
     and_then (list_item (ids results) 0) (\<lambda>is.
     and_then (list_item is i) (\<lambda>food_id.
     and_then (case m of None \<Rightarrow> Inl AttributeError | Some md \<Rightarrow> Inr md) (\<lambda>metadata.
     Inr [(''food_id'', PStr food_id),
          (''food_name'', dict_get metadata ''name'' (PStr ''N/A'')),
          (''food_description'', dict_get metadata ''description'' (PStr ''N/A'')),
          (''cuisine_type'', dict_get metadata ''cuisine_type'' (PStr ''N/A'')),
          (''food_calories_per_serving'', dict_get metadata ''calories'' (PInt 0)),
          (''similarity_score'', PFloat similarity_score),
          (''distance'', PFloat d)])))))))"

fun format_loop :: "query_result \<Rightarrow> nat list \<Rightarrow> pydict list \<Rightarrow> py_error + pydict list" where
  "format_loop results [] formatted_results = Inr formatted_results"
| "format_loop results (i # rest) formatted_results =
     and_then (format_hit results i) (\<lambda>result.
       format_loop results rest (formatted_results @ [result]))"

definition format_results :: "query_result option \<Rightarrow> py_error + pydict list" where
  "format_results results =
     (case results of
        None \<Rightarrow> Inr []
      | Some r \<Rightarrow>
          if ids r = [] \<or> length (ids r ! 0) = 0 then Inr []
          else format_loop r [0 ..< length (ids r ! 0)] [])"

subsection \<open>perform_similarity_search\<close>

definition similarity_request :: "string \<Rightarrow> int \<Rightarrow> query_request" where
  "similarity_request query n =
     \<lparr>query_texts = [query], n_results = n, where_kw = PNone,
      include_kw = [''documents'', ''metadatas'', ''distances'']\<rparr>"

definition perform_similarity_search :: "collection \<Rightarrow> string \<Rightarrow> int \<Rightarrow> py_error + pydict list" where
  "perform_similarity_search collection query n =
     try_except
       (and_then (collection (similarity_request query n)) format_results)
       (\<lambda>e. Inr [])"

subsection \<open>perform_filtered_similarity_search\<close>

text \<open>
  The filter: \<open>if cuisine_filter:\<close> tests truthiness, \<open>if max_calories is not None:\<close>
  tests presence.
\<close>

definition build_filters :: "string option \<Rightarrow> int option \<Rightarrow> pyval list" where
  "build_filters cuisine_filter max_calories =
     (case cuisine_filter of
        None \<Rightarrow> []
      | Some c \<Rightarrow> if c \<noteq> [] then [PDict [(''cuisine_type'', PStr c)]] else [])
     @ (case max_calories of
        None \<Rightarrow> []
      | Some m \<Rightarrow> [PDict [(''calories'', PDict [(''$lte'', PInt m)])]])"

definition build_where_clause :: "string option \<Rightarrow> int option \<Rightarrow> pyval" where
  "build_where_clause cuisine_filter max_calories =
     (let filters = build_filters cuisine_filter max_calories in
      if length filters = 1 then filters ! 0
      else if length filters > 1 then PDict [(''$and'', PList filters)]
      else PNone)"

definition filtered_request :: "string \<Rightarrow> string option \<Rightarrow> int option \<Rightarrow> int \<Rightarrow> query_request" where
  "filtered_request query cuisine_filter max_calories n =
     \<lparr>query_texts = [query], n_results = n,
      where_kw = build_where_clause cuisine_filter max_calories,
      include_kw = [''documents'', ''metadatas'', ''distances'']\<rparr>"

definition perform_filtered_similarity_search ::
  "collection \<Rightarrow> string \<Rightarrow> string option \<Rightarrow> int option \<Rightarrow> int \<Rightarrow> py_error + pydict list" where
  "perform_filtered_similarity_search collection query cuisine_filter max_calories n =
     try_except
       (and_then (collection (filtered_request query cuisine_filter max_calories n)) format_results)
       (\<lambda>e. Inr [])"

subsection \<open>load_food_data\<close>

text \<open>
  \<open>source\<close> is what \<open>open\<close> and \<open>json.load\<close> give: an exception or the decoded JSON
  value. The loop mutates every record in place and the function returns the decoded
  value itself. A record that is not a dictionary raises \<open>TypeError\<close> at the first
  statement of the body: \<open>'food_id' not in item\<close> raises on \<open>None\<close>, a boolean or a
  number, and on a string or a list one of \<open>item['food_id'] = ...\<close> and
  \<open>item['food_id']\<close> does. The message printed by the handler is not modelled.
\<close>

definition set_default :: "pydict \<Rightarrow> string \<Rightarrow> pyval \<Rightarrow> pydict" where
  "set_default item k v = (if \<not> dict_has item k then dict_set item k v else item)"

definition taste_profile_of :: "py_builtins \<Rightarrow> pydict \<Rightarrow> string" where
  "taste_profile_of B item =
     (case map_of item ''food_features'' of
        Some (PDict features) \<Rightarrow>
          join '', '' (map (\<lambda>kv. py_str B (snd kv)) (filter (\<lambda>kv. truthy (snd kv)) features))
      | _ \<Rightarrow> [])"

definition preprocess_record :: "py_builtins \<Rightarrow> nat \<Rightarrow> pydict \<Rightarrow> pydict" where
  "preprocess_record B i item0 =
     (let item1 = (case map_of item0 ''food_id'' of
                     None \<Rightarrow> dict_set item0 ''food_id'' (PStr (show_nat (i + 1)))
                   | Some v \<Rightarrow> dict_set item0 ''food_id'' (PStr (py_str B v)));
          item2 = set_default item1 ''food_ingredients'' (PList []);
          item3 = set_default item2 ''food_description'' (PStr []);
          item4 = set_default item3 ''cuisine_type'' (PStr ''Unknown'');
          item5 = set_default item4 ''food_calories_per_serving'' (PInt 0)
      in dict_set item5 ''taste_profile'' (PStr (taste_profile_of B item5)))"

definition preprocess_item :: "py_builtins \<Rightarrow> nat \<Rightarrow> pyval \<Rightarrow> py_error + pyval" where
  "preprocess_item B i item =
     (case item of PDict d \<Rightarrow> Inr (PDict (preprocess_record B i d)) | _ \<Rightarrow> Inl TypeError)"

fun preprocess_loop :: "py_builtins \<Rightarrow> nat \<Rightarrow> pyval list \<Rightarrow> py_error + pyval list" where
  "preprocess_loop B i [] = Inr []"
| "preprocess_loop B i (item # rest) =
     and_then (preprocess_item B i item) (\<lambda>item'.
     and_then (preprocess_loop B (i + 1) rest) (\<lambda>rest'. Inr (item' # rest')))"

definition load_food_data :: "py_builtins \<Rightarrow> py_error + pyval \<Rightarrow> py_error + pyval" where
  "load_food_data B source =
     try_except
       (and_then source (\<lambda>food_data.
        and_then (py_iter food_data) (\<lambda>items.
        and_then (preprocess_loop B 0 items) (\<lambda>items'.
        Inr (case food_data of PList _ \<Rightarrow> PList items' | _ \<Rightarrow> food_data)))))
       (\<lambda>e. Inr (PList []))"

subsection \<open>populate_similarity_collection\<close>

text \<open>
  The function ends in one call \<open>collection.add(documents=..., metadatas=..., ids=...)\<close>;
  its model returns the arguments of that call. Nothing is caught here: an exception
  leaves the function before anything is registered. \<open>used_ids\<close> is a Python set.
\<close>

record add_request =
  add_documents :: "string list"
  add_metadatas :: "pydict list"
  add_ids :: "string list"

text \<open>\<open>while unique_id in used_ids: unique_id = f"{base_id}_{counter}"; counter += 1\<close>\<close>

function unique_id_loop :: "string \<Rightarrow> string fset \<Rightarrow> nat \<Rightarrow> string \<Rightarrow> string" where
  "unique_id_loop base_id used_ids counter unique_id =
     (if unique_id |\<in>| used_ids
      then unique_id_loop base_id used_ids (counter + 1) (base_id @ ''_'' @ show_nat counter)
      else unique_id)"
  by pat_completeness auto

text \<open>
  The loop ends because decimal rendering is injective: every round leaves one
  fewer used identifier of the form \<open>base_id_k\<close> with \<open>k\<close> at or after the counter.
\<close>

termination
proof -
  have digit_inj: "digit_char a = digit_char b \<Longrightarrow> a mod 10 = b mod 10" for a b
  proof -
    assume h: "digit_char a = digit_char b"
    have d: "distinct ''0123456789''" by simp
    have "a mod 10 < length ''0123456789''" "b mod 10 < length ''0123456789''" by simp_all
    with d h show ?thesis unfolding digit_char_def
      using nth_eq_iff_index_eq by blast
  qed
  have ne: "show_nat n \<noteq> []" for n
    by (subst show_nat.simps) simp
  have inj: "show_nat m = show_nat n \<Longrightarrow> m = n" for m n
  proof (induction m arbitrary: n rule: show_nat.induct)
    case (1 m)
    show ?case
    proof (cases "m < 10")
      case True
      show ?thesis
      proof (cases "n < 10")
        case True
        with \<open>m < 10\<close> "1.prems" have "digit_char m = digit_char n"
          by (simp add: show_nat.simps)
        from digit_inj[OF this] True \<open>m < 10\<close> show ?thesis by simp
      next
        case False
        with \<open>m < 10\<close> "1.prems"
        have "[digit_char m] = show_nat (n div 10) @ [digit_char (n mod 10)]"
          by (simp add: show_nat.simps[of m] show_nat.simps[of n])
        then have "show_nat (n div 10) = []" by simp
        with ne show ?thesis by blast
      qed
    next
      case False
      show ?thesis
      proof (cases "n < 10")
        case True
        with False "1.prems"
        have "show_nat (m div 10) @ [digit_char (m mod 10)] = [digit_char n]"
          by (simp add: show_nat.simps[of m] show_nat.simps[of n])
        then have "show_nat (m div 10) = []" by simp
        with ne show ?thesis by blast
      next
        case nf: False
        with False "1.prems"
        have e: "show_nat (m div 10) @ [digit_char (m mod 10)]
                 = show_nat (n div 10) @ [digit_char (n mod 10)]"
          by (simp add: show_nat.simps[of m] show_nat.simps[of n])
        then have e1: "show_nat (m div 10) = show_nat (n div 10)"
          and e2: "digit_char (m mod 10) = digit_char (n mod 10)"
          by simp_all
        from "1.IH"[OF False e1] have "m div 10 = n div 10" .
        moreover from digit_inj[OF e2] have "m mod 10 = n mod 10" by simp
        ultimately show ?thesis by (metis div_mult_mod_eq)
      qed
    qed
  qed
  let ?later = "\<lambda>b u c. {s \<in> fset u. \<exists>k\<ge>c. s = b @ ''_'' @ show_nat k}"
  let ?m = "\<lambda>(b, u, c, uid). card (?later b u c) + (if uid |\<in>| u then 1 else 0)"
  show ?thesis
  proof (relation "measure ?m")
    show "wf (measure ?m)" by simp
  next
    fix base_id :: string and used_ids :: "string fset" and counter :: nat and unique_id :: string
    assume mem: "unique_id |\<in>| used_ids"
    let ?new = "base_id @ ''_'' @ show_nat counter"
    have fin: "finite (?later base_id used_ids counter)" by simp
    have sub: "?later base_id used_ids (counter + 1) \<subseteq> ?later base_id used_ids counter"
      using Suc_leD by fastforce
    have "card (?later base_id used_ids (counter + 1)) + (if ?new |\<in>| used_ids then 1 else 0)
          \<le> card (?later base_id used_ids counter)"
    proof (cases "?new |\<in>| used_ids")
      case True
      then have in_old: "?new \<in> ?later base_id used_ids counter" by auto
      have "?new \<notin> ?later base_id used_ids (counter + 1)"
      proof
        assume "?new \<in> ?later base_id used_ids (counter + 1)"
        then obtain k where "k \<ge> counter + 1" "?new = base_id @ ''_'' @ show_nat k" by auto
        then have "show_nat counter = show_nat k" by simp
        from inj[OF this] \<open>k \<ge> counter + 1\<close> show False by simp
      qed
      with sub in_old
      have "?later base_id used_ids (counter + 1) \<subset> ?later base_id used_ids counter"
        by blast
      from psubset_card_mono[OF fin this] True show ?thesis by simp
    next
      case False
      with card_mono[OF fin sub] show ?thesis by simp
    qed
    with mem
    show "((base_id, used_ids, counter + 1, ?new), (base_id, used_ids, counter, unique_id))
          \<in> measure ?m"
      by simp
  qed
qed

declare unique_id_loop.simps [simp del]

definition document_text :: "py_builtins \<Rightarrow> pydict \<Rightarrow> py_error + string" where
  "document_text B food =
     and_then (dict_item food ''food_name'') (\<lambda>name.
     and_then (py_join '', '' (dict_get food ''food_ingredients'' (PList []))) (\<lambda>ingredients.
     let taste_profile = dict_get food ''taste_profile'' (PStr []);
         health_benefits = dict_get food ''food_health_benefits'' (PStr [])
     in Inr (''Name: '' @ py_str B name @ ''. ''
          @ ''Description: '' @ py_str B (dict_get food ''food_description'' (PStr [])) @ ''. ''
          @ ''Ingredients: '' @ ingredients @ ''. ''
          @ ''Cuisine: '' @ py_str B (dict_get food ''cuisine_type'' (PStr ''Unknown'')) @ ''. ''
          @ ''Cooking method: '' @ py_str B (dict_get food ''cooking_method'' (PStr [])) @ ''. ''
          @ (if truthy taste_profile
             then ''Taste and features: '' @ py_str B taste_profile @ ''. '' else [])
          @ (if truthy health_benefits
             then ''Health benefits: '' @ py_str B health_benefits @ ''. '' else [])
          @ (case map_of food ''food_nutritional_factors'' of
               Some (PDict nutrition) \<Rightarrow>
                 ''Nutrition: ''
                 @ join '', '' (map (\<lambda>kv. fst kv @ '': '' @ py_str B (snd kv)) nutrition)
                 @ ''.''
             | _ \<Rightarrow> []))))"

definition food_metadata :: "pydict \<Rightarrow> py_error + pydict" where
  "food_metadata food =
     and_then (dict_item food ''food_name'') (\<lambda>name.
     and_then (py_join '', '' (dict_get food ''food_ingredients'' (PList []))) (\<lambda>ingredients.
     Inr [(''name'', name),
          (''cuisine_type'', dict_get food ''cuisine_type'' (PStr ''Unknown'')),
          (''ingredients'', PStr ingredients),
          (''calories'', dict_get food ''food_calories_per_serving'' (PInt 0)),
          (''description'', dict_get food ''food_description'' (PStr [])),
          (''cooking_method'', dict_get food ''cooking_method'' (PStr [])),
          (''health_benefits'', dict_get food ''food_health_benefits'' (PStr [])),
          (''taste_profile'', dict_get food ''taste_profile'' (PStr []))]))"

text \<open>
  One round of \<open>for i, food in enumerate(food_items)\<close>: the document, the identifier
  and the metadata of one food. Subscripting a food that is not a dictionary with
  \<open>'food_name'\<close> raises \<open>TypeError\<close>.
\<close>

definition populate_item ::
  "py_builtins \<Rightarrow> nat \<Rightarrow> pyval \<Rightarrow> string fset \<Rightarrow> py_error + (string \<times> string \<times> pydict)" where
  "populate_item B i food used_ids =
     (case food of
        PDict d \<Rightarrow>
          and_then (document_text B d) (\<lambda>text.
          let base_id = py_str B (dict_get d ''food_id'' (PInt (int i)));
              unique_id = unique_id_loop base_id used_ids 1 base_id
          in and_then (food_metadata d) (\<lambda>metadata. Inr (text, unique_id, metadata)))
      | _ \<Rightarrow> Inl TypeError)"

fun populate_loop ::
  "py_builtins \<Rightarrow> nat \<Rightarrow> pyval list \<Rightarrow> add_request \<Rightarrow> string fset \<Rightarrow> py_error + add_request" where
  "populate_loop B i [] acc used_ids = Inr acc"
| "populate_loop B i (food # rest) acc used_ids =
     and_then (populate_item B i food used_ids) (\<lambda>(text, unique_id, metadata).
       populate_loop B (i + 1) rest
         \<lparr>add_documents = add_documents acc @ [text],
          add_metadatas = add_metadatas acc @ [metadata],
          add_ids = add_ids acc @ [unique_id]\<rparr>
         (finsert unique_id used_ids))"

definition populate_similarity_collection :: "py_builtins \<Rightarrow> pyval \<Rightarrow> py_error + add_request" where
  "populate_similarity_collection B food_items =
     and_then (py_iter food_items) (\<lambda>foods.
       populate_loop B 0 foods \<lparr>add_documents = [], add_metadatas = [], add_ids = []\<rparr> {||})"

section \<open>enhanced_rag_chatbot.py: context, fallback and generation\<close>

subsection \<open>prepare_context_for_llm\<close>

definition no_context :: string where
  "no_context = ''No relevant food items found in the database.''"

definition context_header :: string where
  "context_header =
     ''Based on the user's query, here are the most relevant food options from our database:''"

text \<open>\<open>if result.get(key): food_context.append(f"{label}{result[key]}")\<close>\<close>

definition optional_line :: "py_builtins \<Rightarrow> pydict \<Rightarrow> string \<Rightarrow> string \<Rightarrow> string list" where
  "optional_line B result key label =
     (if truthy (dict_get result key PNone)
      then [label @ py_str B (dict_get result key PNone)] else [])"

definition ingredients_line :: "py_builtins \<Rightarrow> pydict \<Rightarrow> py_error + string list" where
  "ingredients_line B result =
     (if truthy (dict_get result ''food_ingredients'' PNone) then
        (case dict_get result ''food_ingredients'' PNone of
           PList ingredients \<Rightarrow>
             and_then (as_strings (take 5 ingredients)) (\<lambda>ss.
               Inr [''  - Key ingredients: '' @ join '', '' ss])
         | ingredients \<Rightarrow> Inr [''  - Key ingredients: '' @ py_str B ingredients])
      else Inr [])"

text \<open>
  \<open>f"{result['similarity_score']*100:.1f}"\<close>: a float and an integer are formatted
  by Python (the integer product is exact, its formatting goes through a float and
  may raise \<open>OverflowError\<close>), a boolean gives \<open>100.0\<close> or \<open>0.0\<close>, a string
  (repeated 100 times) refuses the format code with \<open>ValueError\<close>, any other value
  raises \<open>TypeError\<close>.
\<close>

fun percent_field :: "py_builtins \<Rightarrow> pyval \<Rightarrow> py_error + string" where
  "percent_field B (PFloat x) = Inr (percent_1f B x)"
| "percent_field B (PInt n) = int_1f B (n * 100)"
| "percent_field B (PBool b) = Inr (if b then ''100.0'' else ''0.0'')"
| "percent_field B (PStr s) = Inl ValueError"
| "percent_field B v = Inl TypeError"

definition food_context :: "py_builtins \<Rightarrow> nat \<Rightarrow> pydict \<Rightarrow> py_error + string list" where
  "food_context B i result =
     and_then (dict_item result ''food_name'') (\<lambda>name.
     and_then (dict_item result ''food_description'') (\<lambda>description.
     and_then (dict_item result ''cuisine_type'') (\<lambda>cuisine.
     and_then (dict_item result ''food_calories_per_serving'') (\<lambda>calories.
     and_then (ingredients_line B result) (\<lambda>ingredients.
     and_then (dict_item result ''similarity_score'') (\<lambda>score.
     and_then (percent_field B score) (\<lambda>percent.
     Inr ([''Option '' @ show_nat i @ '': '' @ py_str B name,
           ''  - Description: '' @ py_str B description,
           ''  - Cuisine: '' @ py_str B cuisine,
           ''  - Calories: '' @ py_str B calories @ '' per serving'']
          @ ingredients
          @ optional_line B result ''food_health_benefits'' ''  - Health benefits: ''
          @ optional_line B result ''cooking_method'' ''  - Cooking method: ''
          @ optional_line B result ''taste_profile'' ''  - Taste profile: ''
          @ [''  - Similarity score: '' @ percent @ ''%'', []]))))))))"

text \<open>\<open>for i, result in enumerate(search_results[:3], 1): ... context_parts.extend(food_context)\<close>\<close>

fun context_loop ::
  "py_builtins \<Rightarrow> nat \<Rightarrow> pydict list \<Rightarrow> string list \<Rightarrow> py_error + string list" where
  "context_loop B i [] context_parts = Inr context_parts"
| "context_loop B i (result # rest) context_parts =
     and_then (food_context B i result) (\<lambda>fc.
       context_loop B (i + 1) rest (context_parts @ fc))"

definition prepare_context_for_llm ::
  "py_builtins \<Rightarrow> string \<Rightarrow> pydict list \<Rightarrow> py_error + string" where
  "prepare_context_for_llm B query search_results =
     (if search_results = [] then Inr no_context
      else and_then (context_loop B 1 (take 3 search_results) [context_header, []])
             (\<lambda>context_parts. Inr (join ''\<newline>'' context_parts)))"

subsection \<open>generate_fallback_response\<close>

definition no_match_message :: string where
  "no_match_message =
     ''I couldn't find any food items matching your request. ''
     @ ''Try describing what you're in the mood for with different words!''"

definition generate_fallback_response ::
  "py_builtins \<Rightarrow> string \<Rightarrow> pydict list \<Rightarrow> py_error + string" where
  "generate_fallback_response B query search_results =
     (case search_results of
        [] \<Rightarrow> Inr no_match_message
      | top_result # others \<Rightarrow>
          and_then (dict_item top_result ''food_name'') (\<lambda>name.
          and_then (dict_item top_result ''cuisine_type'') (\<lambda>cuisine.
          and_then (dict_item top_result ''food_calories_per_serving'') (\<lambda>calories.
          let response_parts =
                [''Based on your request for '' @ [CHR 0x27] @ query @ [CHR 0x27]
                   @ '', I'd recommend '' @ py_str B name @ ''.'',
                 ''It's a '' @ py_str B cuisine @ '' dish with '' @ py_str B calories
                   @ '' calories per serving.'']
          in (case others of
                [] \<Rightarrow> Inr (join '' '' response_parts)
              | second_choice # further \<Rightarrow>
                  and_then (dict_item second_choice ''food_name'') (\<lambda>second_name.
                    Inr (join '' '' (response_parts
                      @ [''Another great option would be '' @ py_str B second_name @ ''.''])))))))
     )"

subsection \<open>generate_llm_rag_response\<close>

text \<open>
  The generation gateway is \<open>client_openai.chat.completions.create\<close>: it raises or
  returns a completion. A completion is the list of the \<open>message.content\<close> of its
  choices, each a string or \<open>None\<close>.
\<close>

record chat_request =
  model :: string
  messages :: "(string \<times> string) list"
  max_tokens :: int
  temperature :: real

type_synonym completion = "string option list"

type_synonym gateway = "chat_request \<Rightarrow> py_error + completion"

text \<open>\<open>str.strip()\<close> removes the white space at both ends.\<close>

definition py_isspace :: "char \<Rightarrow> bool" where
  "py_isspace c = ((of_char c :: nat) \<in> {9, 10, 11, 12, 13, 28, 29, 30, 31, 32, 133, 160})"

definition strip :: "string \<Rightarrow> string" where
  "strip s = rev (dropWhile py_isspace (rev (dropWhile py_isspace s)))"

definition rag_prompt :: "string \<Rightarrow> string \<Rightarrow> string" where
  "rag_prompt query context =
     join ''\<newline>''
       [''You are a helpful food recommendation assistant. A user is asking for food ''
          @ ''recommendations, and I've retrieved relevant options from a food database.'',
        [],
        ''User Query: '' @ [CHR 0x22] @ query @ [CHR 0x22],
        [],
        ''Retrieved Food Information:'',
        context,
        [],
        ''Please provide a helpful, short response that:'',
        ''1. Acknowledges the user's request'',
        ''2. Recommends 2-3 specific food items from the retrieved options'',
        ''3. Explains why these recommendations match their request'',
        ''4. Includes relevant details like cuisine type, calories, or health benefits'',
        ''5. Uses a friendly, conversational tone'',
        ''6. Keeps the response concise but informative'',
        [],
        ''Response:'']"

definition rag_request :: "string \<Rightarrow> string \<Rightarrow> chat_request" where
  "rag_request query context =
     \<lparr>model = ''gpt-3.5-turbo'',
      messages = [(''system'', ''You are a helpful food recommendation assistant.''),
                  (''user'', rag_prompt query context)],
      max_tokens = 400,
      temperature = 7 / 10\<rparr>"

text \<open>The body of the \<open>try\<close> block.\<close>

definition llm_attempt ::
  "gateway \<Rightarrow> py_builtins \<Rightarrow> string \<Rightarrow> pydict list \<Rightarrow> py_error + string" where
  "llm_attempt gateway B query search_results =
     and_then (prepare_context_for_llm B query search_results) (\<lambda>context.
     and_then (gateway (rag_request query context)) (\<lambda>completion.
     and_then (list_item completion 0) (\<lambda>content.
     and_then (case content of None \<Rightarrow> Inl AttributeError | Some g \<Rightarrow> Inr g)
       (\<lambda>generated_response.
     let response_text = strip generated_response in
     if length response_text < 50
     then generate_fallback_response B query search_results
     else Inr response_text))))"

definition generate_llm_rag_response ::
  "gateway \<Rightarrow> py_builtins \<Rightarrow> string \<Rightarrow> pydict list \<Rightarrow> py_error + string" where
  "generate_llm_rag_response gateway B query search_results =
     try_except (llm_attempt gateway B query search_results)
       (\<lambda>e. generate_fallback_response B query search_results)"

section \<open>Collaborators used in the examples\<close>

text \<open>
  An index that gives the same answer to every query, a gateway that gives the same
  answer to every request, a result of one hit at a given distance, and built-ins
  that render every unmodelled value as the empty string.
\<close>

definition constant_index :: "py_error + query_result option \<Rightarrow> collection" where
  "constant_index answer request = answer"

definition constant_gateway :: "py_error + completion \<Rightarrow> gateway" where
  "constant_gateway answer request = answer"

definition one_hit :: "real \<Rightarrow> query_result" where
  "one_hit d =
     \<lparr>ids = [[''7'']],
      metadatas = [[Some [(''name'', PStr ''Pad Thai''), (''cuisine_type'', PStr ''Thai''),
                          (''calories'', PInt 300)]]],
      distances = [[d]]\<rparr>"

definition no_hits :: query_result where
  "no_hits = \<lparr>ids = [[]], metadatas = [[]], distances = [[]]\<rparr>"

definition plain_builtins :: py_builtins where
  "plain_builtins =
     \<lparr>str_other = (\<lambda>v. []), percent_1f = (\<lambda>x. []), int_1f = (\<lambda>n. Inr [])\<rparr>"

text \<open>Search results as \<open>format_hit\<close> builds them, one of them with six ingredients added.\<close>

definition result_of :: "string \<Rightarrow> string \<Rightarrow> string \<Rightarrow> int \<Rightarrow> real \<Rightarrow> pydict" where
  "result_of food_id name cuisine calories d =
     [(''food_id'', PStr food_id), (''food_name'', PStr name),
      (''food_description'', PStr ''N/A''), (''cuisine_type'', PStr cuisine),
      (''food_calories_per_serving'', PInt calories),
      (''similarity_score'', PFloat (1 - d)), (''distance'', PFloat d)]"

definition pad_thai :: pydict where
  "pad_thai = result_of ''7'' ''Pad Thai'' ''Thai'' 300 (1/4)"

definition green_curry :: pydict where
  "green_curry = result_of ''8'' ''Green Curry'' ''Thai'' 450 (1/2)"

definition tom_yum :: pydict where
  "tom_yum = result_of ''9'' ''Tom Yum'' ''Thai'' 150 (3/4)"


definition laksa :: pydict where
  "laksa = result_of ''11'' ''Laksa'' ''Malaysian'' 520 (1/4)
           @ [(''food_ingredients'',
               PList [PStr ''noodles'', PStr ''coconut milk'', PStr ''prawns'', PStr ''tofu'',
                      PStr ''chili'', PStr ''lime''])]"

text \<open>
  Catalog sources: two records without optional fields, and two records that carry the
  same identifier, with what the loader makes of them and what is then registered.
\<close>

definition bare_records :: pyval where
  "bare_records =
     PList [PDict [(''food_name'', PStr ''Pad Thai'')],
            PDict [(''food_name'', PStr ''Green Curry''), (''cuisine_type'', PStr ''Thai'')]]"

definition two_sevens :: pyval where
  "two_sevens =
     PList [PDict [(''food_id'', PStr ''7''), (''food_name'', PStr ''Pad Thai'')],
            PDict [(''food_id'', PInt 7), (''food_name'', PStr ''Green Curry''),
                   (''food_calories_per_serving'', PInt 450)]]"

definition loaded_sevens :: pyval where
  "loaded_sevens =
     PList
       [PDict
         [(''food_id'', PStr ''7''), (''food_name'', PStr ''Pad Thai''),
          (''food_ingredients'', PList []), (''food_description'', PStr []),
          (''cuisine_type'', PStr ''Unknown''),
          (''food_calories_per_serving'', PInt 0),
          (''taste_profile'', PStr [])],
        PDict
         [(''food_id'', PStr ''7''), (''food_name'', PStr ''Green Curry''),
          (''food_calories_per_serving'', PInt 450),
          (''food_ingredients'', PList []), (''food_description'', PStr []),
          (''cuisine_type'', PStr ''Unknown''),
          (''taste_profile'', PStr [])]]"

definition sevens_request :: add_request where
  "sevens_request =
     \<lparr>add_documents =
        [''Name: Pad Thai. Description: . Ingredients: . Cuisine: Unknown. Cooking method: . '',
         ''Name: Green Curry. Description: . Ingredients: . Cuisine: Unknown. Cooking method: . ''],
      add_metadatas =
          [[(''name'', PStr ''Pad Thai''),
            (''cuisine_type'', PStr ''Unknown''),
            (''ingredients'', PStr []), (''calories'', PInt 0),
            (''description'', PStr []), (''cooking_method'', PStr []),
            (''health_benefits'', PStr []), (''taste_profile'', PStr [])],
           [(''name'', PStr ''Green Curry''),
            (''cuisine_type'', PStr ''Unknown''),
            (''ingredients'', PStr []), (''calories'', PInt 450),
            (''description'', PStr []), (''cooking_method'', PStr []),
            (''health_benefits'', PStr []), (''taste_profile'', PStr [])]],
      add_ids = [''7'', ''7_1'']\<rparr>"

text \<open>Three records that carry the same identifier, and what is registered for them.\<close>

definition three_sevens :: pyval where
  "three_sevens =
     PList [PDict [(''food_id'', PStr ''7''), (''food_name'', PStr ''Pad Thai'')],
            PDict [(''food_id'', PStr ''7''), (''food_name'', PStr ''Green Curry'')],
            PDict [(''food_id'', PStr ''7''), (''food_name'', PStr ''Tom Yum'')]]"

definition three_sevens_request :: add_request where
  "three_sevens_request =
     \<lparr>add_documents =
        [''Name: Pad Thai. Description: . Ingredients: . Cuisine: Unknown. Cooking method: . '',
         ''Name: Green Curry. Description: . Ingredients: . Cuisine: Unknown. Cooking method: . '',
         ''Name: Tom Yum. Description: . Ingredients: . Cuisine: Unknown. Cooking method: . ''],
      add_metadatas =
          [[(''name'', PStr ''Pad Thai''),
            (''cuisine_type'', PStr ''Unknown''),
            (''ingredients'', PStr []), (''calories'', PInt 0),
            (''description'', PStr []), (''cooking_method'', PStr []),
            (''health_benefits'', PStr []), (''taste_profile'', PStr [])],
           [(''name'', PStr ''Green Curry''),
            (''cuisine_type'', PStr ''Unknown''),
            (''ingredients'', PStr []), (''calories'', PInt 0),
            (''description'', PStr []), (''cooking_method'', PStr []),
            (''health_benefits'', PStr []), (''taste_profile'', PStr [])],
           [(''name'', PStr ''Tom Yum''),
            (''cuisine_type'', PStr ''Unknown''),
            (''ingredients'', PStr []), (''calories'', PInt 0),
            (''description'', PStr []), (''cooking_method'', PStr []),
            (''health_benefits'', PStr []), (''taste_profile'', PStr [])]],
      add_ids = [''7'', ''7_1'', ''7_2'']\<rparr>"

section \<open>Properties\<close>

subsection \<open>Sequencing and exceptions\<close>

lemma and_then_Inr_iff: "and_then m f = Inr y \<longleftrightarrow> (\<exists>x. m = Inr x \<and> f x = Inr y)"
  by (cases m) (simp_all add: and_then_def)

lemma and_then_Inl [simp]: "and_then (Inl e) f = Inl e"
  by (simp add: and_then_def)

lemma and_then_Inr [simp]: "and_then (Inr x) f = f x"
  by (simp add: and_then_def)

lemma try_except_Inl [simp]: "try_except (Inl e) h = h e"
  by (simp add: try_except_def)

lemma try_except_Inr [simp]: "try_except (Inr x) h = Inr x"
  by (simp add: try_except_def)

lemma list_item_Inr_iff: "list_item xs i = Inr x \<longleftrightarrow> i < length xs \<and> xs ! i = x"
  by (simp add: list_item_def)

subsection \<open>Search results\<close>

lemma format_hit_fields:
  assumes "format_hit r i = Inr h"
  shows "distances r \<noteq> [] \<and> i < length (distances r ! 0)
         \<and> dict_item h ''distance'' = Inr (PFloat (distances r ! 0 ! i))
         \<and> dict_item h ''similarity_score'' = Inr (PFloat (1 - distances r ! 0 ! i))"
  using assms
  by (auto simp: format_hit_def and_then_Inr_iff list_item_Inr_iff Let_def dict_item_def)


lemma format_loop_hits:
  assumes "format_loop r js acc = Inr out"
  shows "\<exists>hs. out = acc @ hs \<and> length hs = length js
              \<and> (\<forall>k < length js. format_hit r (js ! k) = Inr (hs ! k))"
  using assms
proof (induction js arbitrary: acc)
  case Nil
  then show ?case by simp
next
  case (Cons j js)
  from Cons.prems obtain h where h: "format_hit r j = Inr h"
    and rest: "format_loop r js (acc @ [h]) = Inr out"
    by (auto simp: and_then_Inr_iff)
  from Cons.IH[OF rest] obtain hs where out: "out = (acc @ [h]) @ hs"
    and len: "length hs = length js"
    and hits: "\<forall>k < length js. format_hit r (js ! k) = Inr (hs ! k)"
    by blast
  have "\<forall>k < length (j # js). format_hit r ((j # js) ! k) = Inr ((h # hs) ! k)"
  proof (intro allI impI)
    fix k assume "k < length (j # js)"
    then show "format_hit r ((j # js) ! k) = Inr ((h # hs) ! k)"
      using h hits by (cases k) simp_all
  qed
  with out len show ?case by (intro exI[of _ "h # hs"]) simp
qed

lemma format_results_hit:
  assumes "format_results res = Inr out" and "i < length out"
  shows "\<exists>r. res = Some r \<and> format_hit r i = Inr (out ! i)"
proof (cases res)
  case None
  with assms show ?thesis by (simp add: format_results_def)
next
  case (Some r)
  with assms have ne: "\<not> (ids r = [] \<or> length (ids r ! 0) = 0)"
    by (auto simp: format_results_def)
  with assms Some have "format_loop r [0 ..< length (ids r ! 0)] [] = Inr out"
    by (simp add: format_results_def)
  from format_loop_hits[OF this] assms(2) have "format_hit r i = Inr (out ! i)"
    by auto
  with Some show ?thesis by simp
qed

lemma search_hit:
  assumes "try_except (and_then answer format_results) (\<lambda>e. Inr []) = Inr out"
    and "i < length out"
  shows "\<exists>r. answer = Inr (Some r) \<and> format_hit r i = Inr (out ! i)"
proof (cases answer)
  case (Inl e)
  with assms show ?thesis by simp
next
  case (Inr res)
  show ?thesis
  proof (cases "format_results res")
    case (Inl e)
    with Inr assms show ?thesis by simp
  next
    case fr: (Inr out')
    with Inr assms have "out' = out" by simp
    with fr format_results_hit[of res out i] assms(2) Inr show ?thesis by auto
  qed
qed

text \<open>
  C1. Every result of a search, unfiltered or filtered, comes from a hit of the index's
  answer: its \<open>distance\<close> field is the raw distance of that hit and its
  \<open>similarity_score\<close> field is one minus that distance.
\<close>

theorem similarity_score_one_minus_distance:
  assumes "(req = similarity_request q n \<and> perform_similarity_search coll q n = Inr out)
         \<or> (req = filtered_request q cf mc n
            \<and> perform_filtered_similarity_search coll q cf mc n = Inr out)"
    and "i < length out"
  shows "\<exists>r. coll req = Inr (Some r) \<and> distances r \<noteq> [] \<and> i < length (distances r ! 0)
           \<and> dict_item (out ! i) ''distance'' = Inr (PFloat (distances r ! 0 ! i))
           \<and> dict_item (out ! i) ''similarity_score'' = Inr (PFloat (1 - distances r ! 0 ! i))"
proof -
  from assms(1) have "try_except (and_then (coll req) format_results) (\<lambda>e. Inr []) = Inr out"
    by (auto simp: perform_similarity_search_def perform_filtered_similarity_search_def)
  from search_hit[OF this assms(2)] obtain r where r: "coll req = Inr (Some r)"
    and h: "format_hit r i = Inr (out ! i)" by blast
  from format_hit_fields[OF h] r show ?thesis by blast
qed


lemma one_hit_search:
  "try_except (and_then (constant_index (Inr (Some (one_hit d))) req) format_results) (\<lambda>e. Inr [])
   = Inr [[(''food_id'', PStr ''7''), (''food_name'', PStr ''Pad Thai''),
           (''food_description'', PStr ''N/A''), (''cuisine_type'', PStr ''Thai''),
           (''food_calories_per_serving'', PInt 300),
           (''similarity_score'', PFloat (1 - d)), (''distance'', PFloat d)]]"
  by (simp add: constant_index_def one_hit_def format_results_def format_hit_def
      list_item_def dict_get_def)

theorem similarity_score_one_minus_distance_witness:
  "perform_similarity_search (constant_index (Inr (Some (one_hit (1/4))))) ''noodles'' 5
     = Inr [[(''food_id'', PStr ''7''), (''food_name'', PStr ''Pad Thai''),
           (''food_description'', PStr ''N/A''), (''cuisine_type'', PStr ''Thai''),
           (''food_calories_per_serving'', PInt 300),
           (''similarity_score'', PFloat (3/4)), (''distance'', PFloat (1/4))]]
   \<and> (\<exists>r. constant_index (Inr (Some (one_hit (1/4)))) (similarity_request ''noodles'' 5)
            = Inr (Some r)
          \<and> dict_item [(''food_id'', PStr ''7''), (''food_name'', PStr ''Pad Thai''),
           (''food_description'', PStr ''N/A''), (''cuisine_type'', PStr ''Thai''),
           (''food_calories_per_serving'', PInt 300),
           (''similarity_score'', PFloat (3/4)), (''distance'', PFloat (1/4))]
              ''similarity_score'' = Inr (PFloat (1 - distances r ! 0 ! 0)))"
proof -
  let ?c = "constant_index (Inr (Some (one_hit (1/4))))"
  let ?hit = "[(''food_id'', PStr ''7''), (''food_name'', PStr ''Pad Thai''),
           (''food_description'', PStr ''N/A''), (''cuisine_type'', PStr ''Thai''),
           (''food_calories_per_serving'', PInt 300),
           (''similarity_score'', PFloat (3/4)), (''distance'', PFloat (1/4))]"
  have run: "perform_similarity_search ?c ''noodles'' 5 = Inr [?hit]"
    unfolding perform_similarity_search_def by (simp add: one_hit_search)
  have "(similarity_request ''noodles'' 5 = similarity_request ''noodles'' 5
          \<and> perform_similarity_search ?c ''noodles'' 5 = Inr [?hit])
       \<or> (similarity_request ''noodles'' 5 = filtered_request ''noodles'' None None 5
          \<and> perform_filtered_similarity_search ?c ''noodles'' None None 5 = Inr [?hit])"
    using run by simp
  from similarity_score_one_minus_distance[OF this, of 0] run show ?thesis by auto
qed

text \<open>
  C2, as amended. For a raw distance between 0 and 2 the similarity score of a result
  lies between -1 and 1; it lies between 0 and 1 exactly when the distance is at
  most 1. The code computes \<open>1 - distance\<close> and does not clamp it.
\<close>

theorem similarity_score_range:
  assumes "perform_similarity_search coll q n = Inr out
         \<or> perform_filtered_similarity_search coll q cf mc n = Inr out"
    and "i < length out"
    and "dict_item (out ! i) ''distance'' = Inr (PFloat d)"
    and "0 \<le> d" and "d \<le> 2"
  shows "\<exists>s. dict_item (out ! i) ''similarity_score'' = Inr (PFloat s)
           \<and> - 1 \<le> s \<and> s \<le> 1 \<and> ((0 \<le> s \<and> s \<le> 1) = (d \<le> 1))"
proof -
  from assms(1) obtain answer where
    "try_except (and_then answer format_results) (\<lambda>e. Inr []) = Inr out"
    by (auto simp: perform_similarity_search_def perform_filtered_similarity_search_def)
  from search_hit[OF this assms(2)] obtain r where
    h: "format_hit r i = Inr (out ! i)" by blast
  let ?d = "distances r ! 0 ! i"
  from format_hit_fields[OF h] have f:
    "dict_item (out ! i) ''distance'' = Inr (PFloat ?d)"
    "dict_item (out ! i) ''similarity_score'' = Inr (PFloat (1 - ?d))" by simp_all
  from f(1) assms(3) have "?d = d" by simp
  with f(2) assms(4,5) show ?thesis by auto
qed

theorem similarity_score_range_witness:
  "perform_filtered_similarity_search (constant_index (Inr (Some (one_hit (3/2)))))
       ''noodles'' (Some ''Thai'') (Some 400) 5
     = Inr [[(''food_id'', PStr ''7''), (''food_name'', PStr ''Pad Thai''),
           (''food_description'', PStr ''N/A''), (''cuisine_type'', PStr ''Thai''),
           (''food_calories_per_serving'', PInt 300),
           (''similarity_score'', PFloat (- 1/2)), (''distance'', PFloat (3/2))]]
   \<and> (0::real) \<le> 3/2 \<and> (3/2::real) \<le> 2
   \<and> (\<exists>s. dict_item [(''food_id'', PStr ''7''), (''food_name'', PStr ''Pad Thai''),
           (''food_description'', PStr ''N/A''), (''cuisine_type'', PStr ''Thai''),
           (''food_calories_per_serving'', PInt 300),
           (''similarity_score'', PFloat (- 1/2)), (''distance'', PFloat (3/2))]
              ''similarity_score'' = Inr (PFloat s)
          \<and> - 1 \<le> s \<and> s \<le> 1 \<and> \<not> (0 \<le> s \<and> s \<le> 1))"
proof -
  let ?c = "constant_index (Inr (Some (one_hit (3/2))))"
  let ?hit = "[(''food_id'', PStr ''7''), (''food_name'', PStr ''Pad Thai''),
           (''food_description'', PStr ''N/A''), (''cuisine_type'', PStr ''Thai''),
           (''food_calories_per_serving'', PInt 300),
           (''similarity_score'', PFloat (- 1/2)), (''distance'', PFloat (3/2))]"
  have run: "perform_filtered_similarity_search ?c ''noodles'' (Some ''Thai'') (Some 400) 5
             = Inr [?hit]"
    unfolding perform_filtered_similarity_search_def by (simp add: one_hit_search)
  have d: "dict_item ([?hit] ! 0) ''distance'' = Inr (PFloat (3/2))"
    by (simp add: dict_item_def)
  from similarity_score_range[OF disjI2[OF run], of 0 "3/2", OF _ d] run show ?thesis by simp
qed

text \<open>
  C2 as stated fails: a hit at distance 1.5, inside the cosine range, gets the score
  -0.5, outside the interval from 0 to 1.
\<close>

theorem similarity_score_below_zero:
  "perform_similarity_search (constant_index (Inr (Some (one_hit (3/2))))) ''noodles'' 5
     = Inr [[(''food_id'', PStr ''7''), (''food_name'', PStr ''Pad Thai''),
           (''food_description'', PStr ''N/A''), (''cuisine_type'', PStr ''Thai''),
           (''food_calories_per_serving'', PInt 300),
           (''similarity_score'', PFloat (- 1/2)), (''distance'', PFloat (3/2))]]
   \<and> (0::real) \<le> 3/2 \<and> (3/2::real) \<le> 2 \<and> \<not> ((0::real) \<le> - 1/2 \<and> (- 1/2::real) \<le> 1)"
  unfolding perform_similarity_search_def by (simp add: one_hit_search)

subsection \<open>Filter composition\<close>

text \<open>
  C3, as amended. A cuisine filter counts as set when it is a non-empty string, a
  calorie bound when it is not \<open>None\<close>. With neither set no predicate is built and
  no \<open>where\<close> clause is passed; with exactly one set the clause is that predicate;
  with both set it is the \<open>$and\<close> of the cuisine predicate and the calorie predicate.
\<close>

theorem where_clause_composition:
  "((cf = None \<or> cf = Some []) \<and> mc = None \<longrightarrow>
      build_filters cf mc = [] \<and> build_where_clause cf mc = PNone)
   \<and> (cf = Some c \<and> c \<noteq> [] \<and> mc = None \<longrightarrow>
      build_filters cf mc = [PDict [(''cuisine_type'', PStr c)]]
      \<and> build_where_clause cf mc = PDict [(''cuisine_type'', PStr c)])
   \<and> ((cf = None \<or> cf = Some []) \<and> mc = Some m \<longrightarrow>
      build_filters cf mc = [PDict [(''calories'', PDict [(''$lte'', PInt m)])]]
      \<and> build_where_clause cf mc = PDict [(''calories'', PDict [(''$lte'', PInt m)])])
   \<and> (cf = Some c \<and> c \<noteq> [] \<and> mc = Some m \<longrightarrow>
      build_filters cf mc = [PDict [(''cuisine_type'', PStr c)],
                             PDict [(''calories'', PDict [(''$lte'', PInt m)])]]
      \<and> build_where_clause cf mc
          = PDict [(''$and'', PList [PDict [(''cuisine_type'', PStr c)],
                                     PDict [(''calories'', PDict [(''$lte'', PInt m)])]])])"
  by (auto simp: build_where_clause_def build_filters_def)

theorem where_clause_composition_witness:
  "build_where_clause None None = PNone
   \<and> build_where_clause (Some ''Thai'') None = PDict [(''cuisine_type'', PStr ''Thai'')]
   \<and> build_where_clause None (Some 300) = PDict [(''calories'', PDict [(''$lte'', PInt 300)])]
   \<and> build_where_clause (Some ''Thai'') (Some 300)
       = PDict [(''$and'', PList [PDict [(''cuisine_type'', PStr ''Thai'')],
                                  PDict [(''calories'', PDict [(''$lte'', PInt 300)])]])]"
  using where_clause_composition[of None None "''Thai''" 300]
        where_clause_composition[of "Some ''Thai''" None "''Thai''" 300]
        where_clause_composition[of None "Some 300" "''Thai''" 300]
        where_clause_composition[of "Some ''Thai''" "Some 300" "''Thai''" 300]
  by simp

text \<open>
  C3 as stated fails when the cuisine filter is the empty string: alone it yields no
  clause instead of a cuisine predicate, and with a calorie bound it yields the bound
  alone instead of a conjunction.
\<close>

theorem where_clause_empty_cuisine:
  "build_where_clause (Some []) None = PNone
   \<and> build_where_clause (Some []) None \<noteq> PDict [(''cuisine_type'', PStr [])]
   \<and> build_where_clause (Some []) (Some 300) = PDict [(''calories'', PDict [(''$lte'', PInt 300)])]
   \<and> build_where_clause (Some []) (Some 300)
       \<noteq> PDict [(''$and'', PList [PDict [(''cuisine_type'', PStr [])],
                                  PDict [(''calories'', PDict [(''$lte'', PInt 300)])]])]"
  by (simp add: build_where_clause_def build_filters_def)

text \<open>
  C10. The empty string as cuisine filter adds no predicate and the filtered search
  then behaves exactly as with \<open>None\<close>. Every calorie bound that is not \<open>None\<close>,
  the bound 0 among them, adds the predicate \<open>calories <= bound\<close> after whatever the
  cuisine filter contributed, so the clause differs from the one built without a
  bound.
\<close>

theorem cuisine_truthiness_calories_presence:
  "build_filters (Some []) mc = build_filters None mc
   \<and> build_where_clause (Some []) mc = build_where_clause None mc
   \<and> perform_filtered_similarity_search coll q (Some []) mc n
       = perform_filtered_similarity_search coll q None mc n
   \<and> build_filters cf (Some m)
       = build_filters cf None @ [PDict [(''calories'', PDict [(''$lte'', PInt m)])]]
   \<and> build_where_clause None (Some m) = PDict [(''calories'', PDict [(''$lte'', PInt m)])]
   \<and> build_where_clause (Some []) (Some m) = PDict [(''calories'', PDict [(''$lte'', PInt m)])]
   \<and> build_where_clause cf (Some m) \<noteq> build_where_clause cf None
   \<and> build_filters cf (Some 0)
       = build_filters cf None @ [PDict [(''calories'', PDict [(''$lte'', PInt 0)])]]
   \<and> build_where_clause None (Some 0) = PDict [(''calories'', PDict [(''$lte'', PInt 0)])]
   \<and> build_where_clause cf (Some 0) \<noteq> build_where_clause cf None"
  by (auto simp: build_where_clause_def build_filters_def
      perform_filtered_similarity_search_def filtered_request_def split: option.splits)

theorem cuisine_truthiness_calories_presence_witness:
  "build_filters (Some ''Thai'') (Some 0)
     = [PDict [(''cuisine_type'', PStr ''Thai'')],
        PDict [(''calories'', PDict [(''$lte'', PInt 0)])]]
   \<and> build_filters (Some ''Thai'') (Some 300)
     = [PDict [(''cuisine_type'', PStr ''Thai'')],
        PDict [(''calories'', PDict [(''$lte'', PInt 300)])]]
   \<and> build_filters (Some []) (Some 300) = [PDict [(''calories'', PDict [(''$lte'', PInt 300)])]]
   \<and> build_where_clause (Some []) (Some 0) = PDict [(''calories'', PDict [(''$lte'', PInt 0)])]
   \<and> build_where_clause None (Some 300) = PDict [(''calories'', PDict [(''$lte'', PInt 300)])]
   \<and> build_where_clause (Some []) (Some (- 5))
     = PDict [(''calories'', PDict [(''$lte'', PInt (- 5))])]"
proof -
  have thai: "build_filters (Some ''Thai'') None = [PDict [(''cuisine_type'', PStr ''Thai'')]]"
    and none: "build_filters None None = []"
    by (simp_all add: build_filters_def)
  note zero = cuisine_truthiness_calories_presence
      [of "Some 0" "constant_index (Inr None)" "[]" 5 "Some ''Thai''" 0]
  note bound = cuisine_truthiness_calories_presence
      [of "Some 300" "constant_index (Inr None)" "[]" 5 "Some ''Thai''" 300]
  note negative = cuisine_truthiness_calories_presence
      [of "Some (- 5)" "constant_index (Inr None)" "[]" 5 "Some ''Thai''" "- 5"]
  from zero thai have a: "build_filters (Some ''Thai'') (Some 0)
     = [PDict [(''cuisine_type'', PStr ''Thai'')],
        PDict [(''calories'', PDict [(''$lte'', PInt 0)])]]"
    by simp
  from bound thai have b: "build_filters (Some ''Thai'') (Some 300)
     = [PDict [(''cuisine_type'', PStr ''Thai'')],
        PDict [(''calories'', PDict [(''$lte'', PInt 300)])]]"
    by simp
  from cuisine_truthiness_calories_presence
      [of "Some 300" "constant_index (Inr None)" "[]" 5 None 300] none
  have c: "build_filters (Some []) (Some 300)
           = [PDict [(''calories'', PDict [(''$lte'', PInt 300)])]]"
    by simp
  from zero have d: "build_where_clause (Some []) (Some 0)
                     = PDict [(''calories'', PDict [(''$lte'', PInt 0)])]"
    by blast
  from bound have e: "build_where_clause None (Some 300)
                      = PDict [(''calories'', PDict [(''$lte'', PInt 300)])]"
    by blast
  from negative have f: "build_where_clause (Some []) (Some (- 5))
                         = PDict [(''calories'', PDict [(''$lte'', PInt (- 5))])]"
    by blast
  from a b c d e f show ?thesis by blast
qed

subsection \<open>Failure of the index\<close>

text \<open>
  C4. Neither search ever raises. When the query to the index raises, the unfiltered
  and the filtered search return the empty list, which is also what they return when
  the index answers with zero hits.
\<close>

theorem search_failure_gives_empty:
  "(\<exists>out. perform_similarity_search coll q n = Inr out)
   \<and> (\<exists>out. perform_filtered_similarity_search coll q cf mc n = Inr out)
   \<and> (coll (similarity_request q n) = Inl e \<longrightarrow> perform_similarity_search coll q n = Inr [])
   \<and> (coll (filtered_request q cf mc n) = Inl e \<longrightarrow>
        perform_filtered_similarity_search coll q cf mc n = Inr [])
   \<and> (coll (similarity_request q n) = Inr (Some no_hits) \<longrightarrow>
        perform_similarity_search coll q n = Inr [])
   \<and> (coll (filtered_request q cf mc n) = Inr (Some no_hits) \<longrightarrow>
        perform_filtered_similarity_search coll q cf mc n = Inr [])"
proof -
  have total: "\<exists>out. try_except body (\<lambda>e. Inr []) = Inr (out :: pydict list)" for body
    by (cases body) simp_all
  have empty: "format_results (Some no_hits) = Inr []"
    by (simp add: format_results_def no_hits_def)
  show ?thesis
    unfolding perform_similarity_search_def perform_filtered_similarity_search_def
    using total empty by auto
qed

theorem search_failure_gives_empty_witness:
  "perform_similarity_search (constant_index (Inl (OtherError ''backend down''))) ''noodles'' 5
     = Inr []
   \<and> perform_filtered_similarity_search (constant_index (Inl (OtherError ''backend down'')))
        ''noodles'' (Some ''Thai'') (Some 300) 5 = Inr []
   \<and> perform_similarity_search (constant_index (Inr (Some no_hits))) ''noodles'' 5 = Inr []
   \<and> perform_filtered_similarity_search (constant_index (Inr (Some no_hits)))
        ''noodles'' (Some ''Thai'') (Some 300) 5 = Inr []"
  using search_failure_gives_empty[of "constant_index (Inl (OtherError ''backend down''))" "''noodles''" 5
              "Some ''Thai''" "Some 300" "OtherError ''backend down''"]
        search_failure_gives_empty[of "constant_index (Inr (Some no_hits))" "''noodles''" 5
              "Some ''Thai''" "Some 300" "OtherError ''backend down''"]
  by (simp add: constant_index_def)

subsection \<open>Generation and fallback\<close>

lemma try_except_same: "try_except m (\<lambda>e. m) = m"
  by (cases m) simp_all

text \<open>
  C5. Whenever the gateway, called with the request built from the query and the
  context, raises or returns a first choice whose stripped text is shorter than 50
  characters, \<open>generate_llm_rag_response\<close> returns exactly what
  \<open>generate_fallback_response\<close> returns for the same query and results.
\<close>

theorem generation_falls_back:
  assumes "\<forall>context. prepare_context_for_llm B query rs = Inr context \<longrightarrow>
             (\<exists>e. gateway (rag_request query context) = Inl e)
           \<or> (\<exists>text others. gateway (rag_request query context) = Inr (Some text # others)
                 \<and> length (strip text) < 50)"
  shows "generate_llm_rag_response gateway B query rs = generate_fallback_response B query rs"
proof (cases "prepare_context_for_llm B query rs")
  case (Inl e)
  then show ?thesis
    by (simp add: generate_llm_rag_response_def llm_attempt_def)
next
  case (Inr ctx)
  with assms consider
    (raises) e where "gateway (rag_request query ctx) = Inl e"
  | (short) t others where "gateway (rag_request query ctx) = Inr (Some t # others)"
      "length (strip t) < 50"
    by blast
  then show ?thesis
  proof cases
    case raises
    with Inr show ?thesis
      by (simp add: generate_llm_rag_response_def llm_attempt_def)
  next
    case short
    with Inr have "llm_attempt gateway B query rs = generate_fallback_response B query rs"
      by (simp add: llm_attempt_def list_item_def)
    then show ?thesis
      by (simp add: generate_llm_rag_response_def try_except_same)
  qed
qed

lemma fallback_pad_thai:
  "generate_fallback_response plain_builtins ''noodles'' [pad_thai]
   = Inr (''Based on your request for '' @ [CHR 0x27] @ ''noodles'' @ [CHR 0x27]
          @ '', I'd recommend Pad Thai. It's a Thai dish with 300 calories per serving.'')"
  by (simp add: generate_fallback_response_def pad_thai_def result_of_def dict_item_def
      show_int_def show_nat.simps digit_char_def)

theorem generation_falls_back_witness:
  "generate_llm_rag_response (constant_gateway (Inl (OtherError ''quota exceeded'')))
       plain_builtins ''noodles'' [pad_thai]
     = generate_fallback_response plain_builtins ''noodles'' [pad_thai]
   \<and> length (strip ''  Try the Pad Thai.  '') < 50
   \<and> generate_llm_rag_response (constant_gateway (Inr [Some ''  Try the Pad Thai.  '']))
       plain_builtins ''noodles'' [pad_thai]
     = generate_fallback_response plain_builtins ''noodles'' [pad_thai]
   \<and> generate_fallback_response plain_builtins ''noodles'' [pad_thai]
     = Inr (''Based on your request for '' @ [CHR 0x27] @ ''noodles'' @ [CHR 0x27]
          @ '', I'd recommend Pad Thai. It's a Thai dish with 300 calories per serving.'')"
proof -
  have short: "length (strip ''  Try the Pad Thai.  '') < 50"
    by (simp add: strip_def py_isspace_def)
  have a: "generate_llm_rag_response (constant_gateway (Inl (OtherError ''quota exceeded'')))
       plain_builtins ''noodles'' [pad_thai]
     = generate_fallback_response plain_builtins ''noodles'' [pad_thai]"
    by (rule generation_falls_back) (simp add: constant_gateway_def)
  have b: "generate_llm_rag_response (constant_gateway (Inr [Some ''  Try the Pad Thai.  '']))
       plain_builtins ''noodles'' [pad_thai]
     = generate_fallback_response plain_builtins ''noodles'' [pad_thai]"
    by (rule generation_falls_back) (use short in \<open>simp add: constant_gateway_def\<close>)
  from a b short fallback_pad_thai show ?thesis by simp
qed



subsection \<open>Context construction\<close>

lemma map_of_dict_set: "map_of (dict_set d k v) k' = (if k' = k then Some v else map_of d k')"
  by (induction d) auto

lemma context_loop_blocks:
  assumes "length blocks = length rs"
    and "\<forall>k < length rs. food_context B (i + k) (rs ! k) = Inr (blocks ! k)"
  shows "context_loop B i rs acc = Inr (acc @ concat blocks)"
  using assms
proof (induction rs arbitrary: i acc blocks)
  case Nil
  then show ?case by simp
next
  case (Cons r rs)
  from Cons.prems(1) obtain b bs where blocks: "blocks = b # bs" and len: "length bs = length rs"
    by (cases blocks) auto
  from Cons.prems(2)[rule_format, of 0] blocks have b: "food_context B i r = Inr b" by simp
  have "\<forall>k < length rs. food_context B (i + 1 + k) (rs ! k) = Inr (bs ! k)"
  proof (intro allI impI)
    fix k assume "k < length rs"
    with Cons.prems(2)[rule_format, of "Suc k"] blocks
    show "food_context B (i + 1 + k) (rs ! k) = Inr (bs ! k)" by simp
  qed
  from Cons.IH[OF len this] b blocks show ?case by simp
qed

lemma as_strings_length: "as_strings vs = Inr ss \<Longrightarrow> length ss = length vs"
proof (induction vs arbitrary: ss rule: as_strings.induct)
  case 1
  then show ?case by simp
next
  case (2 s vs)
  then show ?case by (auto simp: and_then_Inr_iff)
qed simp_all

lemma ingredients_line_truncated:
  assumes "map_of r ''food_ingredients'' = Some (PList xs)"
  shows "ingredients_line B (dict_set r ''food_ingredients'' (PList (take 5 xs)))
         = ingredients_line B r"
  using assms by (simp add: ingredients_line_def dict_get_def map_of_dict_set)

lemma food_context_truncated:
  assumes "map_of r ''food_ingredients'' = Some (PList xs)"
  shows "food_context B i (dict_set r ''food_ingredients'' (PList (take 5 xs)))
         = food_context B i r"
  unfolding food_context_def ingredients_line_truncated[OF assms]
  by (simp add: dict_item_def optional_line_def dict_get_def map_of_dict_set)

lemma as_strings_map: "as_strings (map PStr ss) = Inr ss"
  by (induction ss) simp_all

lemma ingredients_line_cases:
  assumes "(\<not> truthy (dict_get r ''food_ingredients'' PNone) \<and> ing = [])
         \<or> (\<exists>xs ss. dict_get r ''food_ingredients'' PNone = PList xs \<and> xs \<noteq> []
               \<and> take 5 xs = map PStr ss
               \<and> ing = [''  - Key ingredients: '' @ join '', '' ss])
         \<or> (truthy (dict_get r ''food_ingredients'' PNone)
            \<and> (\<forall>xs. dict_get r ''food_ingredients'' PNone \<noteq> PList xs)
            \<and> ing = [''  - Key ingredients: ''
                      @ py_str B (dict_get r ''food_ingredients'' PNone)])"
  shows "ingredients_line B r = Inr ing"
  using assms
proof (elim disjE exE conjE)
  assume "\<not> truthy (dict_get r ''food_ingredients'' PNone)" "ing = []"
  then show ?thesis by (simp add: ingredients_line_def)
next
  fix xs ss
  assume "dict_get r ''food_ingredients'' PNone = PList xs" "xs \<noteq> []"
    "take 5 xs = map PStr ss" "ing = [''  - Key ingredients: '' @ join '', '' ss]"
  then show ?thesis by (simp add: ingredients_line_def as_strings_map)
next
  assume "truthy (dict_get r ''food_ingredients'' PNone)"
    "\<forall>xs. dict_get r ''food_ingredients'' PNone \<noteq> PList xs"
    "ing = [''  - Key ingredients: '' @ py_str B (dict_get r ''food_ingredients'' PNone)]"
  then show ?thesis
    by (cases "dict_get r ''food_ingredients'' PNone") (simp_all add: ingredients_line_def)
qed

lemma food_context_block:
  assumes "dict_item r ''food_name'' = Inr name"
    and "dict_item r ''food_description'' = Inr description"
    and "dict_item r ''cuisine_type'' = Inr cuisine"
    and "dict_item r ''food_calories_per_serving'' = Inr calories"
    and "dict_item r ''similarity_score'' = Inr (PFloat x)"
    and "ingredients_line B r = Inr ing"
  shows "food_context B i r
         = Inr ([''Option '' @ show_nat i @ '': '' @ py_str B name,
                 ''  - Description: '' @ py_str B description,
                 ''  - Cuisine: '' @ py_str B cuisine,
                 ''  - Calories: '' @ py_str B calories @ '' per serving'']
                @ ing
                @ (if truthy (dict_get r ''food_health_benefits'' PNone)
                   then [''  - Health benefits: ''
                         @ py_str B (dict_get r ''food_health_benefits'' PNone)] else [])
                @ (if truthy (dict_get r ''cooking_method'' PNone)
                   then [''  - Cooking method: ''
                         @ py_str B (dict_get r ''cooking_method'' PNone)] else [])
                @ (if truthy (dict_get r ''taste_profile'' PNone)
                   then [''  - Taste profile: ''
                         @ py_str B (dict_get r ''taste_profile'' PNone)] else [])
                @ [''  - Similarity score: '' @ percent_1f B x @ ''%'', []])"
  using assms by (simp add: food_context_def optional_line_def)


lemma context_blocks_in_order:
  assumes ne: "rs \<noteq> []"
    and keys: "(\<forall>k < length (take 3 rs).
           dict_item (rs ! k) ''food_name'' = Inr (name k)
         \<and> dict_item (rs ! k) ''food_description'' = Inr (description k)
         \<and> dict_item (rs ! k) ''cuisine_type'' = Inr (cuisine k)
         \<and> dict_item (rs ! k) ''food_calories_per_serving'' = Inr (calories k)
         \<and> dict_item (rs ! k) ''similarity_score'' = Inr (PFloat (score k))
         \<and> ((\<not> truthy (dict_get (rs ! k) ''food_ingredients'' PNone) \<and> ing k = [])
            \<or> (\<exists>xs ss. dict_get (rs ! k) ''food_ingredients'' PNone = PList xs \<and> xs \<noteq> []
                  \<and> take 5 xs = map PStr ss
                  \<and> ing k = [''  - Key ingredients: '' @ join '', '' ss])
            \<or> (truthy (dict_get (rs ! k) ''food_ingredients'' PNone)
               \<and> (\<forall>xs. dict_get (rs ! k) ''food_ingredients'' PNone \<noteq> PList xs)
               \<and> ing k = [''  - Key ingredients: ''
                            @ py_str B (dict_get (rs ! k) ''food_ingredients'' PNone)])))"
  shows "prepare_context_for_llm B query rs
         = Inr (join ''\<newline>''
             ([''Based on the user's query, here are the most relevant food options ''
               @ ''from our database:'', []]
              @ concat (map (\<lambda>k.
                  [''Option '' @ show_nat (k + 1) @ '': '' @ py_str B (name k),
                   ''  - Description: '' @ py_str B (description k),
                   ''  - Cuisine: '' @ py_str B (cuisine k),
                   ''  - Calories: '' @ py_str B (calories k) @ '' per serving'']
                  @ ing k
                  @ (if truthy (dict_get (rs ! k) ''food_health_benefits'' PNone)
                     then [''  - Health benefits: ''
                           @ py_str B (dict_get (rs ! k) ''food_health_benefits'' PNone)]
                     else [])
                  @ (if truthy (dict_get (rs ! k) ''cooking_method'' PNone)
                     then [''  - Cooking method: ''
                           @ py_str B (dict_get (rs ! k) ''cooking_method'' PNone)]
                     else [])
                  @ (if truthy (dict_get (rs ! k) ''taste_profile'' PNone)
                     then [''  - Taste profile: ''
                           @ py_str B (dict_get (rs ! k) ''taste_profile'' PNone)]
                     else [])
                  @ [''  - Similarity score: '' @ percent_1f B (score k) @ ''%'', []])
                [0 ..< length (take 3 rs)])))"
proof -
  let ?block = "\<lambda>k.
                  [''Option '' @ show_nat (k + 1) @ '': '' @ py_str B (name k),
                   ''  - Description: '' @ py_str B (description k),
                   ''  - Cuisine: '' @ py_str B (cuisine k),
                   ''  - Calories: '' @ py_str B (calories k) @ '' per serving'']
                  @ ing k
                  @ (if truthy (dict_get (rs ! k) ''food_health_benefits'' PNone)
                     then [''  - Health benefits: ''
                           @ py_str B (dict_get (rs ! k) ''food_health_benefits'' PNone)]
                     else [])
                  @ (if truthy (dict_get (rs ! k) ''cooking_method'' PNone)
                     then [''  - Cooking method: ''
                           @ py_str B (dict_get (rs ! k) ''cooking_method'' PNone)]
                     else [])
                  @ (if truthy (dict_get (rs ! k) ''taste_profile'' PNone)
                     then [''  - Taste profile: ''
                           @ py_str B (dict_get (rs ! k) ''taste_profile'' PNone)]
                     else [])
                  @ [''  - Similarity score: '' @ percent_1f B (score k) @ ''%'', []]"
  let ?blocks = "map ?block [0 ..< length (take 3 rs)]"
  have each: "food_context B (1 + k) (take 3 rs ! k) = Inr (?blocks ! k)"
    if k: "k < length (take 3 rs)" for k
  proof -
    from keys k have f: "dict_item (rs ! k) ''food_name'' = Inr (name k)"
      "dict_item (rs ! k) ''food_description'' = Inr (description k)"
      "dict_item (rs ! k) ''cuisine_type'' = Inr (cuisine k)"
      "dict_item (rs ! k) ''food_calories_per_serving'' = Inr (calories k)"
      "dict_item (rs ! k) ''similarity_score'' = Inr (PFloat (score k))"
      by blast+
    from keys k have "(\<not> truthy (dict_get (rs ! k) ''food_ingredients'' PNone) \<and> ing k = [])
            \<or> (\<exists>xs ss. dict_get (rs ! k) ''food_ingredients'' PNone = PList xs \<and> xs \<noteq> []
                  \<and> take 5 xs = map PStr ss
                  \<and> ing k = [''  - Key ingredients: '' @ join '', '' ss])
            \<or> (truthy (dict_get (rs ! k) ''food_ingredients'' PNone)
               \<and> (\<forall>xs. dict_get (rs ! k) ''food_ingredients'' PNone \<noteq> PList xs)
               \<and> ing k = [''  - Key ingredients: ''
                            @ py_str B (dict_get (rs ! k) ''food_ingredients'' PNone)])"
      by blast
    then have i: "ingredients_line B (rs ! k) = Inr (ing k)"
      by (rule ingredients_line_cases)
    from k have "take 3 rs ! k = rs ! k" by simp
    with food_context_block[OF f i, of "1 + k"] k show ?thesis by simp
  qed
  have "context_loop B 1 (take 3 rs) [context_header, []]
        = Inr ([context_header, []] @ concat ?blocks)"
    by (rule context_loop_blocks) (use each in simp_all)
  with ne show ?thesis
    by (simp add: prepare_context_for_llm_def context_header_def)
qed

text \<open>
  C7. For an empty list the context is the fixed, non-empty sentinel. Otherwise the
  context is that of the first three results: the header, an empty line and, for each
  of these results in the order given, its block: the option number from 1, the name,
  the description, the cuisine and the calories, then a line of ingredients when the
  result has some, the health benefits, the cooking method and the taste profile
  when present, the similarity score and an empty line. An ingredients list is
  rendered through its first five entries only.
\<close>

theorem context_first_three_in_order:
  "prepare_context_for_llm B query [] = Inr no_context \<and> no_context \<noteq> []
   \<and> prepare_context_for_llm B query rs = prepare_context_for_llm B query (take 3 rs)
   \<and> (rs \<noteq> [] \<and> (\<forall>k < length (take 3 rs).
                dict_item (rs ! k) ''food_name'' = Inr (name k)
              \<and> dict_item (rs ! k) ''food_description'' = Inr (description k)
              \<and> dict_item (rs ! k) ''cuisine_type'' = Inr (cuisine k)
              \<and> dict_item (rs ! k) ''food_calories_per_serving'' = Inr (calories k)
              \<and> dict_item (rs ! k) ''similarity_score'' = Inr (PFloat (score k))
              \<and> ((\<not> truthy (dict_get (rs ! k) ''food_ingredients'' PNone) \<and> ing k = [])
                 \<or> (\<exists>xs ss. dict_get (rs ! k) ''food_ingredients'' PNone = PList xs \<and> xs \<noteq> []
                       \<and> take 5 xs = map PStr ss
                       \<and> ing k = [''  - Key ingredients: '' @ join '', '' ss])
                 \<or> (truthy (dict_get (rs ! k) ''food_ingredients'' PNone)
                    \<and> (\<forall>xs. dict_get (rs ! k) ''food_ingredients'' PNone \<noteq> PList xs)
                    \<and> ing k = [''  - Key ingredients: ''
                                 @ py_str B (dict_get (rs ! k) ''food_ingredients'' PNone)]))) \<longrightarrow>
        prepare_context_for_llm B query rs
                = Inr (join ''\<newline>''
                    ([''Based on the user's query, here are the most relevant food options ''
                      @ ''from our database:'', []]
                     @ concat (map (\<lambda>k.
                         [''Option '' @ show_nat (k + 1) @ '': '' @ py_str B (name k),
                          ''  - Description: '' @ py_str B (description k),
                          ''  - Cuisine: '' @ py_str B (cuisine k),
                          ''  - Calories: '' @ py_str B (calories k) @ '' per serving'']
                         @ ing k
                         @ (if truthy (dict_get (rs ! k) ''food_health_benefits'' PNone)
                            then [''  - Health benefits: ''
                                  @ py_str B (dict_get (rs ! k) ''food_health_benefits'' PNone)]
                            else [])
                         @ (if truthy (dict_get (rs ! k) ''cooking_method'' PNone)
                            then [''  - Cooking method: ''
                                  @ py_str B (dict_get (rs ! k) ''cooking_method'' PNone)]
                            else [])
                         @ (if truthy (dict_get (rs ! k) ''taste_profile'' PNone)
                            then [''  - Taste profile: ''
                                  @ py_str B (dict_get (rs ! k) ''taste_profile'' PNone)]
                            else [])
                         @ [''  - Similarity score: '' @ percent_1f B (score k) @ ''%'', []])
                       [0 ..< length (take 3 rs)]))))
   \<and> (rs \<noteq> [] \<and> length blocks = length (take 3 rs)
        \<and> (\<forall>k < length (take 3 rs). food_context B (k + 1) (rs ! k) = Inr (blocks ! k)) \<longrightarrow>
        prepare_context_for_llm B query rs
          = Inr (join ''\<newline>'' ([context_header, []] @ concat blocks)))
   \<and> (map_of r ''food_ingredients'' = Some (PList xs) \<longrightarrow>
        food_context B i r
          = food_context B i (dict_set r ''food_ingredients'' (PList (take 5 xs))))
   \<and> (map_of r ''food_ingredients'' = Some (PList xs) \<and> xs \<noteq> []
        \<and> as_strings (take 5 xs) = Inr ss \<longrightarrow>
        ingredients_line B r = Inr [''  - Key ingredients: '' @ join '', '' ss]
        \<and> length ss \<le> 5)"
proof (intro conjI impI)
  show "prepare_context_for_llm B query [] = Inr no_context"
    by (simp add: prepare_context_for_llm_def)
  show "no_context \<noteq> []" by (simp add: no_context_def)
  show "prepare_context_for_llm B query rs = prepare_context_for_llm B query (take 3 rs)"
    by (cases rs) (simp_all add: prepare_context_for_llm_def)
next
  assume a: "rs \<noteq> [] \<and> (\<forall>k < length (take 3 rs).
                dict_item (rs ! k) ''food_name'' = Inr (name k)
              \<and> dict_item (rs ! k) ''food_description'' = Inr (description k)
              \<and> dict_item (rs ! k) ''cuisine_type'' = Inr (cuisine k)
              \<and> dict_item (rs ! k) ''food_calories_per_serving'' = Inr (calories k)
              \<and> dict_item (rs ! k) ''similarity_score'' = Inr (PFloat (score k))
              \<and> ((\<not> truthy (dict_get (rs ! k) ''food_ingredients'' PNone) \<and> ing k = [])
                 \<or> (\<exists>xs ss. dict_get (rs ! k) ''food_ingredients'' PNone = PList xs \<and> xs \<noteq> []
                       \<and> take 5 xs = map PStr ss
                       \<and> ing k = [''  - Key ingredients: '' @ join '', '' ss])
                 \<or> (truthy (dict_get (rs ! k) ''food_ingredients'' PNone)
                    \<and> (\<forall>xs. dict_get (rs ! k) ''food_ingredients'' PNone \<noteq> PList xs)
                    \<and> ing k = [''  - Key ingredients: ''
                                 @ py_str B (dict_get (rs ! k) ''food_ingredients'' PNone)])))"
  then have ne: "rs \<noteq> []" and keys: "(\<forall>k < length (take 3 rs).
                dict_item (rs ! k) ''food_name'' = Inr (name k)
              \<and> dict_item (rs ! k) ''food_description'' = Inr (description k)
              \<and> dict_item (rs ! k) ''cuisine_type'' = Inr (cuisine k)
              \<and> dict_item (rs ! k) ''food_calories_per_serving'' = Inr (calories k)
              \<and> dict_item (rs ! k) ''similarity_score'' = Inr (PFloat (score k))
              \<and> ((\<not> truthy (dict_get (rs ! k) ''food_ingredients'' PNone) \<and> ing k = [])
                 \<or> (\<exists>xs ss. dict_get (rs ! k) ''food_ingredients'' PNone = PList xs \<and> xs \<noteq> []
                       \<and> take 5 xs = map PStr ss
                       \<and> ing k = [''  - Key ingredients: '' @ join '', '' ss])
                 \<or> (truthy (dict_get (rs ! k) ''food_ingredients'' PNone)
                    \<and> (\<forall>xs. dict_get (rs ! k) ''food_ingredients'' PNone \<noteq> PList xs)
                    \<and> ing k = [''  - Key ingredients: ''
                                 @ py_str B (dict_get (rs ! k) ''food_ingredients'' PNone)])))"
    by blast+
  from context_blocks_in_order[OF ne keys]
  show "prepare_context_for_llm B query rs
                = Inr (join ''\<newline>''
                    ([''Based on the user's query, here are the most relevant food options ''
                      @ ''from our database:'', []]
                     @ concat (map (\<lambda>k.
                         [''Option '' @ show_nat (k + 1) @ '': '' @ py_str B (name k),
                          ''  - Description: '' @ py_str B (description k),
                          ''  - Cuisine: '' @ py_str B (cuisine k),
                          ''  - Calories: '' @ py_str B (calories k) @ '' per serving'']
                         @ ing k
                         @ (if truthy (dict_get (rs ! k) ''food_health_benefits'' PNone)
                            then [''  - Health benefits: ''
                                  @ py_str B (dict_get (rs ! k) ''food_health_benefits'' PNone)]
                            else [])
                         @ (if truthy (dict_get (rs ! k) ''cooking_method'' PNone)
                            then [''  - Cooking method: ''
                                  @ py_str B (dict_get (rs ! k) ''cooking_method'' PNone)]
                            else [])
                         @ (if truthy (dict_get (rs ! k) ''taste_profile'' PNone)
                            then [''  - Taste profile: ''
                                  @ py_str B (dict_get (rs ! k) ''taste_profile'' PNone)]
                            else [])
                         @ [''  - Similarity score: '' @ percent_1f B (score k) @ ''%'', []])
                       [0 ..< length (take 3 rs)])))" .
next
  assume a: "rs \<noteq> [] \<and> length blocks = length (take 3 rs)
        \<and> (\<forall>k < length (take 3 rs). food_context B (k + 1) (rs ! k) = Inr (blocks ! k))"
  then have "\<forall>k < length (take 3 rs). food_context B (1 + k) (take 3 rs ! k) = Inr (blocks ! k)"
    by simp
  with a have "context_loop B 1 (take 3 rs) [context_header, []]
               = Inr ([context_header, []] @ concat blocks)"
    by (intro context_loop_blocks) simp_all
  with a show "prepare_context_for_llm B query rs
          = Inr (join ''\<newline>'' ([context_header, []] @ concat blocks))"
    by (simp add: prepare_context_for_llm_def)
next
  assume "map_of r ''food_ingredients'' = Some (PList xs)"
  from food_context_truncated[OF this]
  show "food_context B i r
          = food_context B i (dict_set r ''food_ingredients'' (PList (take 5 xs)))"
    by simp
next
  assume a: "map_of r ''food_ingredients'' = Some (PList xs) \<and> xs \<noteq> []
        \<and> as_strings (take 5 xs) = Inr ss"
  then show "ingredients_line B r = Inr [''  - Key ingredients: '' @ join '', '' ss]"
    by (simp add: ingredients_line_def dict_get_def)
  from a as_strings_length[of "take 5 xs" ss] show "length ss \<le> 5" by simp
qed

theorem context_first_three_in_order_witness:
  "prepare_context_for_llm plain_builtins ''noodles'' [pad_thai, laksa, green_curry, tom_yum]
     = Inr (join ''\<newline>''
         [''Based on the user's query, here are the most relevant food options ''
            @ ''from our database:'',
          [],
          ''Option 1: Pad Thai'', ''  - Description: N/A'', ''  - Cuisine: Thai'',
          ''  - Calories: 300 per serving'', ''  - Similarity score: %'', [],
          ''Option 2: Laksa'', ''  - Description: N/A'', ''  - Cuisine: Malaysian'',
          ''  - Calories: 520 per serving'',
          ''  - Key ingredients: noodles, coconut milk, prawns, tofu, chili'',
          ''  - Similarity score: %'', [],
          ''Option 3: Green Curry'', ''  - Description: N/A'', ''  - Cuisine: Thai'',
          ''  - Calories: 450 per serving'', ''  - Similarity score: %'', []])
   \<and> prepare_context_for_llm plain_builtins ''noodles'' [pad_thai, laksa, green_curry, tom_yum]
     = prepare_context_for_llm plain_builtins ''noodles'' [pad_thai, laksa, green_curry]
   \<and> prepare_context_for_llm plain_builtins ''noodles'' [] = Inr no_context
   \<and> ingredients_line plain_builtins laksa
     = Inr [''  - Key ingredients: noodles, coconut milk, prawns, tofu, chili'']"
proof -
  let ?rs = "[pad_thai, laksa, green_curry, tom_yum]"
  let ?xs = "[PStr ''noodles'', PStr ''coconut milk'', PStr ''prawns'', PStr ''tofu'',
              PStr ''chili'', PStr ''lime'']"
  let ?ss = "[''noodles'', ''coconut milk'', ''prawns'', ''tofu'', ''chili'']"
  let ?line = "''  - Key ingredients: noodles, coconut milk, prawns, tofu, chili''"
  let ?name = "\<lambda>k::nat. PStr ([''Pad Thai'', ''Laksa'', ''Green Curry''] ! k)"
  let ?description = "\<lambda>k::nat. PStr ''N/A''"
  let ?cuisine = "\<lambda>k::nat. PStr ([''Thai'', ''Malaysian'', ''Thai''] ! k)"
  let ?calories = "\<lambda>k::nat. PInt ([300, 520, 450] ! k)"
  let ?score = "\<lambda>k::nat. [3/4, 3/4, 1/2 :: real] ! k"
  let ?ing = "\<lambda>k::nat. [[], [?line], []] ! k"
  have m: "map_of laksa ''food_ingredients'' = Some (PList ?xs)"
    by (simp add: laksa_def result_of_def)
  have s: "as_strings (take 5 ?xs) = Inr ?ss" by simp
  have g: "dict_get laksa ''food_ingredients'' PNone = PList ?xs"
    by (simp add: laksa_def result_of_def dict_get_def)
  have lak: "\<exists>xs ss. dict_get laksa ''food_ingredients'' PNone = PList xs \<and> xs \<noteq> []
                  \<and> take 5 xs = map PStr ss
                  \<and> [?line] = [''  - Key ingredients: '' @ join '', '' ss]"
    by (intro exI[of _ ?xs] exI[of _ ?ss]) (simp add: g)
  have keys: "\<forall>k < length (take 3 ?rs).
           dict_item (?rs ! k) ''food_name'' = Inr (?name k)
         \<and> dict_item (?rs ! k) ''food_description'' = Inr (?description k)
         \<and> dict_item (?rs ! k) ''cuisine_type'' = Inr (?cuisine k)
         \<and> dict_item (?rs ! k) ''food_calories_per_serving'' = Inr (?calories k)
         \<and> dict_item (?rs ! k) ''similarity_score'' = Inr (PFloat (?score k))
         \<and> ((\<not> truthy (dict_get (?rs ! k) ''food_ingredients'' PNone) \<and> ?ing k = [])
            \<or> (\<exists>xs ss. dict_get (?rs ! k) ''food_ingredients'' PNone = PList xs \<and> xs \<noteq> []
                  \<and> take 5 xs = map PStr ss
                  \<and> ?ing k = [''  - Key ingredients: '' @ join '', '' ss])
            \<or> (truthy (dict_get (?rs ! k) ''food_ingredients'' PNone)
               \<and> (\<forall>xs. dict_get (?rs ! k) ''food_ingredients'' PNone \<noteq> PList xs)
               \<and> ?ing k = [''  - Key ingredients: ''
                            @ py_str plain_builtins
                                (dict_get (?rs ! k) ''food_ingredients'' PNone)]))"
  proof (intro allI impI)
    fix k assume "k < length (take 3 ?rs)"
    then consider "k = 0" | "k = 1" | "k = 2" by force
    then show "dict_item (?rs ! k) ''food_name'' = Inr (?name k)
         \<and> dict_item (?rs ! k) ''food_description'' = Inr (?description k)
         \<and> dict_item (?rs ! k) ''cuisine_type'' = Inr (?cuisine k)
         \<and> dict_item (?rs ! k) ''food_calories_per_serving'' = Inr (?calories k)
         \<and> dict_item (?rs ! k) ''similarity_score'' = Inr (PFloat (?score k))
         \<and> ((\<not> truthy (dict_get (?rs ! k) ''food_ingredients'' PNone) \<and> ?ing k = [])
            \<or> (\<exists>xs ss. dict_get (?rs ! k) ''food_ingredients'' PNone = PList xs \<and> xs \<noteq> []
                  \<and> take 5 xs = map PStr ss
                  \<and> ?ing k = [''  - Key ingredients: '' @ join '', '' ss])
            \<or> (truthy (dict_get (?rs ! k) ''food_ingredients'' PNone)
               \<and> (\<forall>xs. dict_get (?rs ! k) ''food_ingredients'' PNone \<noteq> PList xs)
               \<and> ?ing k = [''  - Key ingredients: ''
                            @ py_str plain_builtins
                                (dict_get (?rs ! k) ''food_ingredients'' PNone)]))"
    proof cases
      case 1
      then show ?thesis
        by (simp add: pad_thai_def result_of_def dict_item_def dict_get_def)
    next
      case 2
      have "dict_item laksa ''food_name'' = Inr (PStr ''Laksa'')"
        "dict_item laksa ''food_description'' = Inr (PStr ''N/A'')"
        "dict_item laksa ''cuisine_type'' = Inr (PStr ''Malaysian'')"
        "dict_item laksa ''food_calories_per_serving'' = Inr (PInt 520)"
        "dict_item laksa ''similarity_score'' = Inr (PFloat (3/4))"
        by (simp_all add: laksa_def result_of_def dict_item_def)
      with lak 2 show ?thesis by simp
    next
      case 3
      then show ?thesis
        by (simp add: green_curry_def result_of_def dict_item_def dict_get_def)
    qed
  qed
  note inst = context_first_three_in_order[of plain_builtins "''noodles''" ?rs ?name ?description ?cuisine ?calories
                    ?score ?ing "[]" laksa ?xs 1 ?ss]
  have idx: "[0 ..< length (take 3 ?rs)] = [0, 1, 2]" by (simp add: upt_rec)
  have nums: "show_nat (Suc 0) = ''1''" "show_nat (Suc (Suc 0)) = ''2''"
    "show_nat (Suc (Suc (Suc 0))) = ''3''"
    "show_int 300 = ''300''" "show_int 520 = ''520''" "show_int 450 = ''450''"
    by (simp_all add: show_int_def show_nat.simps digit_char_def)
  have opt: "dict_get pad_thai k PNone = PNone" "dict_get laksa k PNone = PNone"
    "dict_get green_curry k PNone = PNone"
    if "k \<in> {''food_health_benefits'', ''cooking_method'', ''taste_profile''}" for k
    using that
    by (auto simp: pad_thai_def laksa_def green_curry_def result_of_def dict_get_def)
  have ne: "?rs \<noteq> []" by simp
  note raw = inst[THEN conjunct2, THEN conjunct2, THEN conjunct2, THEN conjunct1,
                  rule_format, OF conjI[OF ne keys]]
  have a: "prepare_context_for_llm plain_builtins ''noodles'' ?rs
     = Inr (join ''\<newline>''
         [''Based on the user's query, here are the most relevant food options ''
            @ ''from our database:'',
          [],
          ''Option 1: Pad Thai'', ''  - Description: N/A'', ''  - Cuisine: Thai'',
          ''  - Calories: 300 per serving'', ''  - Similarity score: %'', [],
          ''Option 2: Laksa'', ''  - Description: N/A'', ''  - Cuisine: Malaysian'',
          ''  - Calories: 520 per serving'',
          ''  - Key ingredients: noodles, coconut milk, prawns, tofu, chili'',
          ''  - Similarity score: %'', [],
          ''Option 3: Green Curry'', ''  - Description: N/A'', ''  - Cuisine: Thai'',
          ''  - Calories: 450 per serving'', ''  - Similarity score: %'', []])"
    unfolding raw by (simp add: idx nums opt plain_builtins_def)
  from inst have b: "prepare_context_for_llm plain_builtins ''noodles'' ?rs
     = prepare_context_for_llm plain_builtins ''noodles'' [pad_thai, laksa, green_curry]"
    by (simp add: numeral_3_eq_3)
  from inst have c: "prepare_context_for_llm plain_builtins ''noodles'' [] = Inr no_context"
    by blast
  from inst m s have d: "ingredients_line plain_builtins laksa
     = Inr [''  - Key ingredients: '' @ join '', '' ?ss]"
    by blast
  from a b c d show ?thesis by simp
qed

subsection \<open>Loading the catalog\<close>

lemma map_of_set_default:
  "map_of (set_default d k v) k'
   = (if k' = k \<and> map_of d k = None then Some v else map_of d k')"
  by (simp add: set_default_def dict_has_def map_of_dict_set)

lemma preprocess_record_fields:
  "map_of (preprocess_record B i d) ''food_id''
     = Some (PStr (case map_of d ''food_id'' of None \<Rightarrow> show_nat (i + 1) | Some v \<Rightarrow> py_str B v))"
  "map_of (preprocess_record B i d) ''food_ingredients''
     = Some (case map_of d ''food_ingredients'' of None \<Rightarrow> PList [] | Some v \<Rightarrow> v)"
  "map_of (preprocess_record B i d) ''food_description''
     = Some (case map_of d ''food_description'' of None \<Rightarrow> PStr [] | Some v \<Rightarrow> v)"
  "map_of (preprocess_record B i d) ''cuisine_type''
     = Some (case map_of d ''cuisine_type'' of None \<Rightarrow> PStr ''Unknown'' | Some v \<Rightarrow> v)"
  "map_of (preprocess_record B i d) ''food_calories_per_serving''
     = Some (case map_of d ''food_calories_per_serving'' of None \<Rightarrow> PInt 0 | Some v \<Rightarrow> v)"
  by (simp_all add: preprocess_record_def Let_def map_of_dict_set map_of_set_default
      split: option.splits)

lemma preprocess_loop_dicts:
  "preprocess_loop B i (map PDict ds)
   = Inr (map (\<lambda>(k, d). PDict (preprocess_record B k d)) (zip [i ..< i + length ds] ds))"
proof (induction ds arbitrary: i)
  case Nil
  then show ?case by simp
next
  case (Cons d ds)
  have "[i ..< i + length (d # ds)] = i # [i + 1 ..< (i + 1) + length ds]"
    by (simp add: upt_rec)
  with Cons.IH[of "i + 1"] show ?case
    by (simp add: preprocess_item_def)
qed

lemma preprocess_loop_not_dict:
  assumes "x \<in> set items" and "\<forall>d. x \<noteq> PDict d"
  shows "\<exists>e. preprocess_loop B i items = Inl e"
  using assms
proof (induction items arbitrary: i)
  case Nil
  then show ?case by simp
next
  case (Cons y ys)
  show ?case
  proof (cases "preprocess_item B i y")
    case (Inl e)
    then show ?thesis by simp
  next
    case (Inr y')
    with Cons.prems have "x \<in> set ys"
      by (cases y) (auto simp: preprocess_item_def)
    from Cons.IH[OF this Cons.prems(2), of "i + 1"] Inr show ?thesis by auto
  qed
qed

text \<open>
  C8, as amended. The loader never raises. When reading or decoding the source
  raises, or the decoded value is a list with an element that is not a dictionary, it
  returns the empty list; a decoded value that is not a list gives the empty list
  too, except that an empty dictionary and an empty string are returned as they are.
  For a list of dictionaries it returns the records in order, each with its missing
  fields defaulted: the identifier to the decimal of the 1-based position (a present
  one is turned into a string), the description to the empty string, the cuisine to
  \<open>Unknown\<close>, the calories to 0, the ingredients to the empty list.
\<close>

theorem loader_never_fails_and_defaults:
  "(\<exists>v. load_food_data B source = Inr v)
   \<and> (source = Inl e \<longrightarrow> load_food_data B source = Inr (PList []))
   \<and> (source = Inr v \<and> (\<forall>items. v \<noteq> PList items) \<longrightarrow>
        load_food_data B source = Inr (if v = PDict [] \<or> v = PStr [] then v else PList []))
   \<and> (source = Inr (PList items) \<and> x \<in> set items \<and> (\<forall>d. x \<noteq> PDict d) \<longrightarrow>
        load_food_data B source = Inr (PList []))
   \<and> (source = Inr (PList (map PDict ds)) \<longrightarrow>
        (\<exists>ds'. load_food_data B source = Inr (PList (map PDict ds'))
           \<and> length ds' = length ds
           \<and> (\<forall>i < length ds.
                map_of (ds' ! i) ''food_id''
                  = Some (PStr (case map_of (ds ! i) ''food_id'' of
                                  None \<Rightarrow> show_nat (i + 1) | Some v \<Rightarrow> py_str B v))
              \<and> map_of (ds' ! i) ''food_description''
                  = Some (case map_of (ds ! i) ''food_description'' of
                            None \<Rightarrow> PStr [] | Some v \<Rightarrow> v)
              \<and> map_of (ds' ! i) ''cuisine_type''
                  = Some (case map_of (ds ! i) ''cuisine_type'' of
                            None \<Rightarrow> PStr ''Unknown'' | Some v \<Rightarrow> v)
              \<and> map_of (ds' ! i) ''food_calories_per_serving''
                  = Some (case map_of (ds ! i) ''food_calories_per_serving'' of
                            None \<Rightarrow> PInt 0 | Some v \<Rightarrow> v)
              \<and> map_of (ds' ! i) ''food_ingredients''
                  = Some (case map_of (ds ! i) ''food_ingredients'' of
                            None \<Rightarrow> PList [] | Some v \<Rightarrow> v))))"
proof (intro conjI impI)
  show "\<exists>v. load_food_data B source = Inr v"
    unfolding load_food_data_def
    by (cases "and_then source (\<lambda>food_data.
        and_then (py_iter food_data) (\<lambda>items.
        and_then (preprocess_loop B 0 items) (\<lambda>items'.
        Inr (case food_data of PList _ \<Rightarrow> PList items' | _ \<Rightarrow> food_data))))") simp_all
next
  assume "source = Inl e"
  then show "load_food_data B source = Inr (PList [])"
    by (simp add: load_food_data_def)
next
  assume a: "source = Inr v \<and> (\<forall>items. v \<noteq> PList items)"
  show "load_food_data B source = Inr (if v = PDict [] \<or> v = PStr [] then v else PList [])"
  proof (cases v)
    case (PStr s)
    with a show ?thesis
      by (cases s) (simp_all add: load_food_data_def preprocess_item_def)
  next
    case (PDict d)
    with a show ?thesis
      by (cases d) (simp_all add: load_food_data_def preprocess_item_def)
  qed (use a in \<open>simp_all add: load_food_data_def\<close>)
next
  assume a: "source = Inr (PList items) \<and> x \<in> set items \<and> (\<forall>d. x \<noteq> PDict d)"
  with preprocess_loop_not_dict[of x items B 0] obtain e where
    "preprocess_loop B 0 items = Inl e" by blast
  with a show "load_food_data B source = Inr (PList [])"
    by (simp add: load_food_data_def)
next
  assume a: "source = Inr (PList (map PDict ds))"
  let ?ds' = "map (\<lambda>(k, d). preprocess_record B k d) (zip [0 ..< length ds] ds)"
  have m: "map (\<lambda>(k, d). PDict (preprocess_record B k d)) (zip [0 ..< length ds] ds)
           = map PDict ?ds'"
    by (simp add: case_prod_beta)
  from a have "load_food_data B source = Inr (PList (map PDict ?ds'))"
    unfolding load_food_data_def
    using preprocess_loop_dicts[of B 0 ds] m by simp
  moreover have "length ?ds' = length ds" by simp
  moreover have "?ds' ! i = preprocess_record B i (ds ! i)" if "i < length ds" for i
    using that by simp
  ultimately show "\<exists>ds'. load_food_data B source = Inr (PList (map PDict ds'))
           \<and> length ds' = length ds
           \<and> (\<forall>i < length ds.
                map_of (ds' ! i) ''food_id''
                  = Some (PStr (case map_of (ds ! i) ''food_id'' of
                                  None \<Rightarrow> show_nat (i + 1) | Some v \<Rightarrow> py_str B v))
              \<and> map_of (ds' ! i) ''food_description''
                  = Some (case map_of (ds ! i) ''food_description'' of
                            None \<Rightarrow> PStr [] | Some v \<Rightarrow> v)
              \<and> map_of (ds' ! i) ''cuisine_type''
                  = Some (case map_of (ds ! i) ''cuisine_type'' of
                            None \<Rightarrow> PStr ''Unknown'' | Some v \<Rightarrow> v)
              \<and> map_of (ds' ! i) ''food_calories_per_serving''
                  = Some (case map_of (ds ! i) ''food_calories_per_serving'' of
                            None \<Rightarrow> PInt 0 | Some v \<Rightarrow> v)
              \<and> map_of (ds' ! i) ''food_ingredients''
                  = Some (case map_of (ds ! i) ''food_ingredients'' of
                            None \<Rightarrow> PList [] | Some v \<Rightarrow> v))"
    by (intro exI[of _ ?ds']) (simp add: preprocess_record_fields)
qed

lemma load_bare_records:
  "load_food_data plain_builtins (Inr bare_records)
   = Inr (PList
       [PDict
         [(''food_name'', PStr ''Pad Thai''), (''food_id'', PStr ''1''),
          (''food_ingredients'', PList []), (''food_description'', PStr []),
          (''cuisine_type'', PStr ''Unknown''),
          (''food_calories_per_serving'', PInt 0),
          (''taste_profile'', PStr [])],
        PDict
         [(''food_name'', PStr ''Green Curry''),
          (''cuisine_type'', PStr ''Thai''), (''food_id'', PStr ''2''),
          (''food_ingredients'', PList []), (''food_description'', PStr []),
          (''food_calories_per_serving'', PInt 0),
          (''taste_profile'', PStr [])]])"
  unfolding bare_records_def plain_builtins_def by code_simp

theorem loader_never_fails_and_defaults_witness:
  "load_food_data plain_builtins (Inr bare_records)
   = Inr (PList
       [PDict
         [(''food_name'', PStr ''Pad Thai''), (''food_id'', PStr ''1''),
          (''food_ingredients'', PList []), (''food_description'', PStr []),
          (''cuisine_type'', PStr ''Unknown''),
          (''food_calories_per_serving'', PInt 0),
          (''taste_profile'', PStr [])],
        PDict
         [(''food_name'', PStr ''Green Curry''),
          (''cuisine_type'', PStr ''Thai''), (''food_id'', PStr ''2''),
          (''food_ingredients'', PList []), (''food_description'', PStr []),
          (''food_calories_per_serving'', PInt 0),
          (''taste_profile'', PStr [])]])
   \<and> (\<exists>ds'. load_food_data plain_builtins (Inr bare_records) = Inr (PList (map PDict ds'))
          \<and> length ds' = 2
          \<and> map_of (ds' ! 0) ''food_id'' = Some (PStr ''1'')
          \<and> map_of (ds' ! 0) ''food_calories_per_serving'' = Some (PInt 0)
          \<and> map_of (ds' ! 1) ''food_id'' = Some (PStr ''2'')
          \<and> map_of (ds' ! 1) ''cuisine_type'' = Some (PStr ''Thai''))"
proof -
  let ?ds = "[[(''food_name'', PStr ''Pad Thai'')],
              [(''food_name'', PStr ''Green Curry''), (''cuisine_type'', PStr ''Thai'')]]"
  have src: "Inr bare_records = (Inr (PList (map PDict ?ds)) :: py_error + pyval)"
    by (simp add: bare_records_def)
  from loader_never_fails_and_defaults[of plain_builtins "Inr bare_records" "OtherError []" PNone "[]" PNone ?ds] src
  obtain ds' where load: "load_food_data plain_builtins (Inr bare_records)
                          = Inr (PList (map PDict ds'))"
    and len: "length ds' = length ?ds"
    and fields: "\<forall>i < length ?ds.
                map_of (ds' ! i) ''food_id''
                  = Some (PStr (case map_of (?ds ! i) ''food_id'' of
                                  None \<Rightarrow> show_nat (i + 1) | Some v \<Rightarrow> py_str plain_builtins v))
              \<and> map_of (ds' ! i) ''food_description''
                  = Some (case map_of (?ds ! i) ''food_description'' of
                            None \<Rightarrow> PStr [] | Some v \<Rightarrow> v)
              \<and> map_of (ds' ! i) ''cuisine_type''
                  = Some (case map_of (?ds ! i) ''cuisine_type'' of
                            None \<Rightarrow> PStr ''Unknown'' | Some v \<Rightarrow> v)
              \<and> map_of (ds' ! i) ''food_calories_per_serving''
                  = Some (case map_of (?ds ! i) ''food_calories_per_serving'' of
                            None \<Rightarrow> PInt 0 | Some v \<Rightarrow> v)
              \<and> map_of (ds' ! i) ''food_ingredients''
                  = Some (case map_of (?ds ! i) ''food_ingredients'' of
                            None \<Rightarrow> PList [] | Some v \<Rightarrow> v)"
    by blast
  from fields[rule_format, of 0] have f0:
    "map_of (ds' ! 0) ''food_id'' = Some (PStr ''1'')"
    "map_of (ds' ! 0) ''food_calories_per_serving'' = Some (PInt 0)"
    by (simp_all add: show_nat.simps digit_char_def)
  from fields[rule_format, of 1] have f1:
    "map_of (ds' ! 1) ''food_id'' = Some (PStr ''2'')"
    "map_of (ds' ! 1) ''cuisine_type'' = Some (PStr ''Thai'')"
    by (simp_all add: show_nat.simps digit_char_def)
  from load len f0 f1 have "\<exists>ds'. load_food_data plain_builtins (Inr bare_records)
            = Inr (PList (map PDict ds'))
          \<and> length ds' = 2
          \<and> map_of (ds' ! 0) ''food_id'' = Some (PStr ''1'')
          \<and> map_of (ds' ! 0) ''food_calories_per_serving'' = Some (PInt 0)
          \<and> map_of (ds' ! 1) ''food_id'' = Some (PStr ''2'')
          \<and> map_of (ds' ! 1) ''cuisine_type'' = Some (PStr ''Thai'')"
    by (intro exI[of _ ds']) simp
  with load_bare_records show ?thesis by (rule conjI)
qed

text \<open>
  C8 as stated fails: on a source that cannot be decoded, on a decoded value that is
  not a list and on a list of a non-dictionary the loader does not fail, it returns
  the empty list.
\<close>

theorem loader_returns_empty_on_bad_source:
  "load_food_data plain_builtins (Inl (OtherError ''JSONDecodeError'')) = Inr (PList [])
   \<and> load_food_data plain_builtins (Inr (PInt 5)) = Inr (PList [])
   \<and> load_food_data plain_builtins (Inr (PList [PInt 5])) = Inr (PList [])"
  by (simp add: load_food_data_def preprocess_item_def)

subsection \<open>Identifiers registered with the index\<close>

lemma unique_id_loop_fresh: "unique_id_loop b u c uid |\<notin>| u"
proof (induction b u c uid rule: unique_id_loop.induct)
  case (1 b u c uid)
  then show ?case by (subst unique_id_loop.simps) auto
qed

lemma unique_id_loop_unused: "uid |\<notin>| u \<Longrightarrow> unique_id_loop b u c uid = uid"
  by (subst unique_id_loop.simps) simp

lemma unique_id_loop_suffix:
  assumes "uid |\<in>| u"
  shows "\<exists>k\<ge>c. unique_id_loop b u c uid = b @ ''_'' @ show_nat k
              \<and> b @ ''_'' @ show_nat k |\<notin>| u
              \<and> (\<forall>j. c \<le> j \<and> j < k \<longrightarrow> b @ ''_'' @ show_nat j |\<in>| u)"
  using assms
proof (induction b u c uid rule: unique_id_loop.induct)
  case (1 b u c uid)
  let ?next = "b @ ''_'' @ show_nat c"
  from "1.prems" have step: "unique_id_loop b u c uid = unique_id_loop b u (c + 1) ?next"
    by (subst unique_id_loop.simps) simp
  show ?case
  proof (cases "?next |\<in>| u")
    case False
    with step unique_id_loop_unused[OF False, of b "c + 1"] show ?thesis
      by (intro exI[of _ c]) auto
  next
    case True
    from "1.IH"[OF "1.prems" True] obtain k where k: "k \<ge> c + 1"
      "unique_id_loop b u (c + 1) ?next = b @ ''_'' @ show_nat k"
      "b @ ''_'' @ show_nat k |\<notin>| u"
      "\<forall>j. c + 1 \<le> j \<and> j < k \<longrightarrow> b @ ''_'' @ show_nat j |\<in>| u"
      by blast
    have "\<forall>j. c \<le> j \<and> j < k \<longrightarrow> b @ ''_'' @ show_nat j |\<in>| u"
    proof (intro allI impI)
      fix j assume j: "c \<le> j \<and> j < k"
      show "b @ ''_'' @ show_nat j |\<in>| u"
      proof (cases "j = c")
        case True
        with \<open>?next |\<in>| u\<close> show ?thesis by simp
      next
        case False
        with j k(4) show ?thesis by simp
      qed
    qed
    with k step show ?thesis by (intro exI[of _ k]) simp
  qed
qed

lemma populate_loop_distinct:
  assumes "populate_loop B i foods acc used = Inr req"
    and "fset used = set (add_ids acc)" and "distinct (add_ids acc)"
  shows "distinct (add_ids req)"
  using assms
proof (induction foods arbitrary: i acc used)
  case Nil
  then show ?case by simp
next
  case (Cons food foods)
  from Cons.prems(1) obtain doc uid metadata where
    item: "populate_item B i food used = Inr (doc, uid, metadata)"
    and rest: "populate_loop B (i + 1) foods
         \<lparr>add_documents = add_documents acc @ [doc],
          add_metadatas = add_metadatas acc @ [metadata],
          add_ids = add_ids acc @ [uid]\<rparr>
         (finsert uid used) = Inr req"
    by (auto simp: and_then_Inr_iff)
  from item obtain b where "uid = unique_id_loop b used 1 b"
    by (cases food) (auto simp: populate_item_def and_then_Inr_iff Let_def)
  with unique_id_loop_fresh[of b used 1 b] have "uid |\<notin>| used" by simp
  with Cons.prems(2,3) have "distinct (add_ids acc @ [uid])"
    and "fset (finsert uid used) = set (add_ids acc @ [uid])"
    by auto
  with Cons.IH[OF rest] show ?case by simp
qed

lemma populate_item_id:
  assumes "populate_item B i (PDict d) used = Inr (text, uid, metadata)"
  shows "uid = unique_id_loop (py_str B (dict_get d ''food_id'' (PInt (int i)))) used 1
                 (py_str B (dict_get d ''food_id'' (PInt (int i))))"
  using assms by (auto simp: populate_item_def and_then_Inr_iff Let_def)

lemma populate_item_dict:
  assumes "populate_item B i food used = Inr (doc, uid, metadata)"
  shows "\<exists>d. food = PDict d
           \<and> uid = unique_id_loop (py_str B (dict_get d ''food_id'' (PInt (int i)))) used 1
                     (py_str B (dict_get d ''food_id'' (PInt (int i))))"
  using assms
  by (cases food) (auto simp: populate_item_def and_then_Inr_iff Let_def)

lemma populate_loop_ids:
  assumes "populate_loop B i foods acc used = Inr req"
  shows "\<exists>new. add_ids req = add_ids acc @ new \<and> length new = length foods
           \<and> length (add_documents req) = length (add_documents acc) + length foods
           \<and> length (add_metadatas req) = length (add_metadatas acc) + length foods
           \<and> (\<forall>k < length foods. \<exists>d. foods ! k = PDict d
                 \<and> new ! k = unique_id_loop
                      (py_str B (dict_get d ''food_id'' (PInt (int (i + k)))))
                      (used |\<union>| fset_of_list (take k new)) 1
                      (py_str B (dict_get d ''food_id'' (PInt (int (i + k))))))"
  using assms
proof (induction foods arbitrary: i acc used)
  case Nil
  then show ?case by simp
next
  case (Cons food foods)
  from Cons.prems obtain doc uid metadata where
    item: "populate_item B i food used = Inr (doc, uid, metadata)"
    and rest: "populate_loop B (i + 1) foods
         \<lparr>add_documents = add_documents acc @ [doc],
          add_metadatas = add_metadatas acc @ [metadata],
          add_ids = add_ids acc @ [uid]\<rparr>
         (finsert uid used) = Inr req"
    by (auto simp: and_then_Inr_iff)
  from populate_item_dict[OF item] obtain d0 where d0: "food = PDict d0"
    "uid = unique_id_loop (py_str B (dict_get d0 ''food_id'' (PInt (int i)))) used 1
             (py_str B (dict_get d0 ''food_id'' (PInt (int i))))"
    by blast
  from Cons.IH[OF rest] obtain new where new:
    "add_ids req = (add_ids acc @ [uid]) @ new" "length new = length foods"
    "length (add_documents req) = length (add_documents acc) + 1 + length foods"
    "length (add_metadatas req) = length (add_metadatas acc) + 1 + length foods"
    "\<forall>k < length foods. \<exists>d. foods ! k = PDict d
        \<and> new ! k = unique_id_loop
             (py_str B (dict_get d ''food_id'' (PInt (int (i + 1 + k)))))
             (finsert uid used |\<union>| fset_of_list (take k new)) 1
             (py_str B (dict_get d ''food_id'' (PInt (int (i + 1 + k)))))"
    by auto
  have each: "\<exists>d. (food # foods) ! k = PDict d
        \<and> (uid # new) ! k = unique_id_loop
             (py_str B (dict_get d ''food_id'' (PInt (int (i + k)))))
             (used |\<union>| fset_of_list (take k (uid # new))) 1
             (py_str B (dict_get d ''food_id'' (PInt (int (i + k)))))"
    if "k < length (food # foods)" for k
  proof (cases k)
    case 0
    with d0 show ?thesis by simp
  next
    case (Suc k')
    with that have "k' < length foods" by simp
    with new(5) obtain d where d: "foods ! k' = PDict d"
      "new ! k' = unique_id_loop
             (py_str B (dict_get d ''food_id'' (PInt (int (i + 1 + k')))))
             (finsert uid used |\<union>| fset_of_list (take k' new)) 1
             (py_str B (dict_get d ''food_id'' (PInt (int (i + 1 + k')))))"
      by blast
    have "finsert uid used |\<union>| fset_of_list (take k' new)
          = used |\<union>| fset_of_list (take (Suc k') (uid # new))"
      by auto
    with d Suc show ?thesis by simp
  qed
  show ?case
  proof (intro exI[of _ "uid # new"] conjI allI impI)
    show "add_ids req = add_ids acc @ uid # new" using new(1) by simp
    show "length (uid # new) = length (food # foods)" using new(2) by simp
    show "length (add_documents req) = length (add_documents acc) + length (food # foods)"
      using new(3) by simp
    show "length (add_metadatas req) = length (add_metadatas acc) + length (food # foods)"
      using new(4) by simp
  next
    fix k assume "k < length (food # foods)"
    from each[OF this]
    show "\<exists>d. (food # foods) ! k = PDict d
        \<and> (uid # new) ! k = unique_id_loop
             (py_str B (dict_get d ''food_id'' (PInt (int (i + k)))))
             (used |\<union>| fset_of_list (take k (uid # new))) 1
             (py_str B (dict_get d ''food_id'' (PInt (int (i + k)))))" .
  qed
qed

lemma unique_id_loop_rule:
  "(base_id |\<notin>| used_ids \<longrightarrow> unique_id_loop base_id used_ids 1 base_id = base_id)
   \<and> (base_id |\<in>| used_ids \<longrightarrow>
        (\<exists>k\<ge>1. unique_id_loop base_id used_ids 1 base_id = base_id @ ''_'' @ show_nat k
               \<and> base_id @ ''_'' @ show_nat k |\<notin>| used_ids
               \<and> (\<forall>j. 1 \<le> j \<and> j < k \<longrightarrow> base_id @ ''_'' @ show_nat j |\<in>| used_ids)))"
  using unique_id_loop_unused[of base_id used_ids base_id 1]
        unique_id_loop_suffix[of base_id used_ids 1 base_id]
  by blast

lemma populate_ids:
  assumes "populate_similarity_collection B food_items = Inr req"
  shows "\<exists>foods. py_iter food_items = Inr foods
           \<and> length (add_ids req) = length foods
           \<and> length (add_documents req) = length foods
           \<and> length (add_metadatas req) = length foods
           \<and> (\<forall>i < length foods. \<exists>d base_id.
                 foods ! i = PDict d
                 \<and> base_id = py_str B (dict_get d ''food_id'' (PInt (int i)))
                 \<and> add_ids req ! i
                     = unique_id_loop base_id (fset_of_list (take i (add_ids req))) 1 base_id
                 \<and> (base_id \<notin> set (take i (add_ids req)) \<longrightarrow> add_ids req ! i = base_id)
                 \<and> (base_id \<in> set (take i (add_ids req)) \<longrightarrow>
                      (\<exists>k\<ge>1. add_ids req ! i = base_id @ ''_'' @ show_nat k
                         \<and> base_id @ ''_'' @ show_nat k \<notin> set (take i (add_ids req))
                         \<and> (\<forall>j. 1 \<le> j \<and> j < k \<longrightarrow>
                               base_id @ ''_'' @ show_nat j \<in> set (take i (add_ids req))))))"
proof -
  from assms obtain foods where it: "py_iter food_items = Inr foods" and
    loop: "populate_loop B 0 foods \<lparr>add_documents = [], add_metadatas = [], add_ids = []\<rparr> {||}
           = Inr req"
    by (auto simp: populate_similarity_collection_def and_then_Inr_iff)
  from populate_loop_ids[OF loop] have len: "length (add_ids req) = length foods"
    "length (add_documents req) = length foods" "length (add_metadatas req) = length foods"
    and ids: "\<forall>k < length foods. \<exists>d. foods ! k = PDict d
                 \<and> add_ids req ! k = unique_id_loop
                      (py_str B (dict_get d ''food_id'' (PInt (int k))))
                      (fset_of_list (take k (add_ids req))) 1
                      (py_str B (dict_get d ''food_id'' (PInt (int k))))"
    by auto
  have "\<exists>d base_id.
                 foods ! i = PDict d
                 \<and> base_id = py_str B (dict_get d ''food_id'' (PInt (int i)))
                 \<and> add_ids req ! i
                     = unique_id_loop base_id (fset_of_list (take i (add_ids req))) 1 base_id
                 \<and> (base_id \<notin> set (take i (add_ids req)) \<longrightarrow> add_ids req ! i = base_id)
                 \<and> (base_id \<in> set (take i (add_ids req)) \<longrightarrow>
                      (\<exists>k\<ge>1. add_ids req ! i = base_id @ ''_'' @ show_nat k
                         \<and> base_id @ ''_'' @ show_nat k \<notin> set (take i (add_ids req))
                         \<and> (\<forall>j. 1 \<le> j \<and> j < k \<longrightarrow>
                               base_id @ ''_'' @ show_nat j \<in> set (take i (add_ids req)))))"
    if "i < length foods" for i
  proof -
    from ids that obtain d where d: "foods ! i = PDict d"
      "add_ids req ! i = unique_id_loop
                      (py_str B (dict_get d ''food_id'' (PInt (int i))))
                      (fset_of_list (take i (add_ids req))) 1
                      (py_str B (dict_get d ''food_id'' (PInt (int i))))"
      by blast
    let ?b = "py_str B (dict_get d ''food_id'' (PInt (int i)))"
    let ?u = "fset_of_list (take i (add_ids req))"
    from unique_id_loop_rule[of ?b ?u] d
    show ?thesis
      by (intro exI[of _ d] exI[of _ ?b]) (simp add: fset_of_list_elem)
  qed
  with it len show ?thesis by blast
qed

text \<open>
  C9. For every catalog that \<open>populate_similarity_collection\<close> registers, one
  identifier, one document and one metadata dictionary are passed to the index per
  record, and the identifiers are pairwise distinct. The identifier of a record is
  its base identifier when no earlier record was registered under it; otherwise it
  is the base identifier with the suffix \<open>_k\<close> for the first \<open>k\<close> from 1 on whose
  suffixed identifier no earlier record was registered under. Two records that both
  carry the identifier 7 are registered as \<open>7\<close> and \<open>7_1\<close>.
\<close>

theorem registered_ids_distinct:
  "(populate_similarity_collection B food_items = Inr req \<longrightarrow>
      distinct (add_ids req)
      \<and> (\<exists>foods. py_iter food_items = Inr foods
           \<and> length (add_ids req) = length foods
           \<and> length (add_documents req) = length foods
           \<and> length (add_metadatas req) = length foods
           \<and> (\<forall>i < length foods. \<exists>d base_id.
                 foods ! i = PDict d
                 \<and> base_id = py_str B (dict_get d ''food_id'' (PInt (int i)))
                 \<and> add_ids req ! i
                     = unique_id_loop base_id (fset_of_list (take i (add_ids req))) 1 base_id
                 \<and> (base_id \<notin> set (take i (add_ids req)) \<longrightarrow> add_ids req ! i = base_id)
                 \<and> (base_id \<in> set (take i (add_ids req)) \<longrightarrow>
                      (\<exists>k\<ge>1. add_ids req ! i = base_id @ ''_'' @ show_nat k
                         \<and> base_id @ ''_'' @ show_nat k \<notin> set (take i (add_ids req))
                         \<and> (\<forall>j. 1 \<le> j \<and> j < k \<longrightarrow>
                               base_id @ ''_'' @ show_nat j \<in> set (take i (add_ids req))))))))
   \<and> (base_id |\<notin>| used_ids \<longrightarrow> unique_id_loop base_id used_ids 1 base_id = base_id)
   \<and> (base_id |\<in>| used_ids \<longrightarrow>
        (\<exists>k\<ge>1. unique_id_loop base_id used_ids 1 base_id = base_id @ ''_'' @ show_nat k
               \<and> base_id @ ''_'' @ show_nat k |\<notin>| used_ids
               \<and> (\<forall>j. 1 \<le> j \<and> j < k \<longrightarrow> base_id @ ''_'' @ show_nat j |\<in>| used_ids)))
   \<and> (populate_similarity_collection B (PList [PDict d1, PDict d2]) = Inr req
        \<and> map_of d1 ''food_id'' = Some (PStr ''7'') \<and> map_of d2 ''food_id'' = Some (PStr ''7'')
        \<longrightarrow> add_ids req = [''7'', ''7_1''] \<and> length (add_documents req) = 2)"
proof -
  have first: "distinct (add_ids req)
      \<and> (\<exists>foods. py_iter food_items = Inr foods
           \<and> length (add_ids req) = length foods
           \<and> length (add_documents req) = length foods
           \<and> length (add_metadatas req) = length foods
           \<and> (\<forall>i < length foods. \<exists>d base_id.
                 foods ! i = PDict d
                 \<and> base_id = py_str B (dict_get d ''food_id'' (PInt (int i)))
                 \<and> add_ids req ! i
                     = unique_id_loop base_id (fset_of_list (take i (add_ids req))) 1 base_id
                 \<and> (base_id \<notin> set (take i (add_ids req)) \<longrightarrow> add_ids req ! i = base_id)
                 \<and> (base_id \<in> set (take i (add_ids req)) \<longrightarrow>
                      (\<exists>k\<ge>1. add_ids req ! i = base_id @ ''_'' @ show_nat k
                         \<and> base_id @ ''_'' @ show_nat k \<notin> set (take i (add_ids req))
                         \<and> (\<forall>j. 1 \<le> j \<and> j < k \<longrightarrow>
                               base_id @ ''_'' @ show_nat j \<in> set (take i (add_ids req)))))))"
    if run: "populate_similarity_collection B food_items = Inr req"
  proof -
    from run obtain foods where
      "populate_loop B 0 foods \<lparr>add_documents = [], add_metadatas = [], add_ids = []\<rparr> {||}
       = Inr req"
      by (auto simp: populate_similarity_collection_def and_then_Inr_iff)
    from populate_loop_distinct[OF this] have "distinct (add_ids req)" by simp
    from this populate_ids[OF run] show ?thesis by (rule conjI)
  qed
  have pair: "add_ids req = [''7'', ''7_1''] \<and> length (add_documents req) = 2"
    if a: "populate_similarity_collection B (PList [PDict d1, PDict d2]) = Inr req
        \<and> map_of d1 ''food_id'' = Some (PStr ''7'') \<and> map_of d2 ''food_id'' = Some (PStr ''7'')"
  proof -
    from a obtain t1 u1 m1 t2 u2 m2 where
      i1: "populate_item B 0 (PDict d1) {||} = Inr (t1, u1, m1)"
      and i2: "populate_item B 1 (PDict d2) {|u1|} = Inr (t2, u2, m2)"
      and req: "req = \<lparr>add_documents = [t1, t2], add_metadatas = [m1, m2], add_ids = [u1, u2]\<rparr>"
      by (auto simp: populate_similarity_collection_def and_then_Inr_iff)
    from a have b: "py_str B (dict_get d1 ''food_id'' (PInt (int 0))) = ''7''"
      "py_str B (dict_get d2 ''food_id'' (PInt (int 1))) = ''7''"
      by (simp_all add: dict_get_def)
    from populate_item_id[OF i1] b have u1: "u1 = ''7''"
      by (simp add: unique_id_loop_unused)
    have one: "show_nat (Suc 0) = ''1''" by (simp add: show_nat.simps digit_char_def)
    have "unique_id_loop ''7'' {|''7''|} 1 ''7''
          = unique_id_loop ''7'' {|''7''|} (1 + 1) (''7'' @ ''_'' @ show_nat 1)"
      by (subst unique_id_loop.simps) simp
    also have "\<dots> = ''7'' @ ''_'' @ show_nat 1"
      by (rule unique_id_loop_unused) (simp add: one)
    finally have "unique_id_loop ''7'' {|''7''|} 1 ''7'' = ''7_1''" by (simp add: one)
    with populate_item_id[OF i2] b u1 have "u2 = ''7_1''" by simp
    with u1 req show ?thesis by simp
  qed
  from first pair unique_id_loop_rule[of base_id used_ids] show ?thesis by blast
qed

lemma load_two_sevens: "load_food_data plain_builtins (Inr two_sevens) = Inr loaded_sevens"
  unfolding two_sevens_def loaded_sevens_def plain_builtins_def by code_simp

lemma populate_loaded_sevens:
  "populate_similarity_collection plain_builtins loaded_sevens = Inr sevens_request"
  unfolding sevens_request_def loaded_sevens_def plain_builtins_def by code_simp

lemma populate_three_sevens:
  "populate_similarity_collection plain_builtins three_sevens = Inr three_sevens_request"
  unfolding three_sevens_request_def three_sevens_def plain_builtins_def by code_simp

theorem registered_ids_distinct_witness:
  "load_food_data plain_builtins (Inr two_sevens) = Inr loaded_sevens
   \<and> populate_similarity_collection plain_builtins loaded_sevens = Inr sevens_request
   \<and> add_ids sevens_request = [''7'', ''7_1'']
   \<and> distinct (add_ids sevens_request)
   \<and> populate_similarity_collection plain_builtins three_sevens = Inr three_sevens_request
   \<and> add_ids three_sevens_request = [''7'', ''7_1'', ''7_2'']
   \<and> distinct (add_ids three_sevens_request)
   \<and> length (add_ids three_sevens_request) = 3
   \<and> length (add_documents three_sevens_request) = 3
   \<and> unique_id_loop ''7'' {|''7''|} 1 ''7'' = ''7_1''"
proof -
  note inst = registered_ids_distinct[of plain_builtins loaded_sevens sevens_request "''7''" "{|''7''|}"
      "[(''food_id'', PStr ''7''), (''food_name'', PStr ''Pad Thai''),
          (''food_ingredients'', PList []), (''food_description'', PStr []),
          (''cuisine_type'', PStr ''Unknown''),
          (''food_calories_per_serving'', PInt 0),
          (''taste_profile'', PStr [])]"
      "[(''food_id'', PStr ''7''), (''food_name'', PStr ''Green Curry''),
          (''food_calories_per_serving'', PInt 450),
          (''food_ingredients'', PList []), (''food_description'', PStr []),
          (''cuisine_type'', PStr ''Unknown''),
          (''taste_profile'', PStr [])]"]
  note three = registered_ids_distinct[of plain_builtins three_sevens three_sevens_request "''7''" "{|''7''|}"
      "[]" "[]"]
  from inst populate_loaded_sevens have d: "distinct (add_ids sevens_request)" by blast
  from three populate_three_sevens have d3: "distinct (add_ids three_sevens_request)" by blast
  from three populate_three_sevens obtain foods where
    foods: "py_iter three_sevens = Inr foods"
    "length (add_ids three_sevens_request) = length foods"
    "length (add_documents three_sevens_request) = length foods"
    by blast
  from foods(1) have "length foods = 3" by (auto simp: three_sevens_def)
  with foods have l3: "length (add_ids three_sevens_request) = 3"
    "length (add_documents three_sevens_request) = 3"
    by simp_all
  from inst obtain k where k: "k \<ge> 1"
    "unique_id_loop ''7'' {|''7''|} 1 ''7'' = ''7'' @ ''_'' @ show_nat k"
    "\<forall>j. 1 \<le> j \<and> j < k \<longrightarrow> ''7'' @ ''_'' @ show_nat j |\<in>| {|''7''|}"
    by auto
  have "k = 1"
  proof (rule ccontr)
    assume "k \<noteq> 1"
    with k(1) have "1 \<le> (1::nat) \<and> 1 < k" by simp
    with k(3) have "''7'' @ ''_'' @ show_nat 1 |\<in>| {|''7''|}" by blast
    then show False by simp
  qed
  with k(2) have u: "unique_id_loop ''7'' {|''7''|} 1 ''7'' = ''7_1''"
    by (simp add: show_nat.simps digit_char_def)
  have i: "add_ids sevens_request = [''7'', ''7_1'']" by (simp add: sevens_request_def)
  have i3: "add_ids three_sevens_request = [''7'', ''7_1'', ''7_2'']"
    by (simp add: three_sevens_request_def)
  from load_two_sevens populate_loaded_sevens populate_three_sevens i i3 d d3 l3 u
  show ?thesis by simp
qed

end
